theory Spec2Isabelle
  imports Main "HOL-Library.Word"
begin

section \<open>Build supervisor of the web UI: \<^verbatim>\<open>web-ui/app/api/build-app/route.ts\<close>\<close>

text \<open>
  The development embeds the handler \<^verbatim>\<open>POST\<close> of the build endpoint (the variant with the
  single-flight lock, the install fingerprint, the validator and the corruption
  signatures) and \<^verbatim>\<open>AppBuilder.writeFiles\<close> of \<^verbatim>\<open>lib/app-builder.ts\<close>.

  Conventions of the embedding.
  \<^item> A JavaScript string is a \<^typ>\<open>string\<close>; \<^verbatim>\<open>charCodeAt\<close> is \<^term>\<open>of_char\<close>. Code units
    above 255 are not represented.
  \<^item> The target directory \<^verbatim>\<open>generated-app\<close> is a \<open>disk\<close>: \<open>None\<close> when the directory
    does not exist, otherwise a listing of the paths below it with what is at each.
  \<^item> Everything outside the handler (the \<^verbatim>\<open>npm\<close> subprocesses, the Generator, the HTTP
    probes and the output chunks of the dev server) is a field of the environment
    record. A subprocess and the Generator may answer differently each time: they take
    the number of effects performed so far. A subprocess may change the directory.
  \<^item> The validator's scan \<^verbatim>\<open>findForbiddenNextDocumentUsage\<close> is a field of the environment
    too, as a function of the directory: the statements below hold for every scan.
  \<^item> Effects are appended to a trace, in program order.
  \<^item> A thrown \<^verbatim>\<open>Error\<close> is the left injection of a sum. The message of an error that
    Node's \<^verbatim>\<open>fs\<close> throws (it quotes the absolute path) is the environment's: \<open>fs_message\<close>
    takes the system call and the relative path.
  \<^item> The timestamped \<^verbatim>\<open>logs\<close> array and the \<^verbatim>\<open>pid\<close> field of the responses are
    diagnostics only and are left out.
\<close>

subsection \<open>Strings\<close>

text \<open>\<^verbatim>\<open>hay.includes(needle)\<close>\<close>

fun js_includes :: "string \<Rightarrow> string \<Rightarrow> bool" where
  "js_includes [] needle = (needle = [])"
| "js_includes (c # cs) needle =
     (take (length needle) (c # cs) = needle \<or> js_includes cs needle)"

text \<open>The white space and line terminators that \<^verbatim>\<open>String.prototype.trim\<close> strips,
  among the characters a \<^typ>\<open>char\<close> can hold.\<close>

definition js_whitespace :: "char \<Rightarrow> bool" where
  "js_whitespace c =
     (c = CHR 0x09 \<or> c = CHR 0x0A \<or> c = CHR 0x0B \<or> c = CHR 0x0C \<or> c = CHR 0x0D
      \<or> c = CHR 0x20 \<or> c = CHR 0xA0)"

definition trim :: "string \<Rightarrow> string" where
  "trim s = rev (dropWhile js_whitespace (rev (dropWhile js_whitespace s)))"

definition digit_char :: "nat \<Rightarrow> char" where
  "digit_char d = ''0123456789'' ! (d mod 10)"

text \<open>\<^verbatim>\<open>String(h)\<close> for a non-negative integer: its decimal digits.\<close>

function String_of :: "nat \<Rightarrow> string" where
  "String_of n = (if n < 10 then [digit_char n] else String_of (n div 10) @ [digit_char (n mod 10)])"
  by pat_completeness auto
termination
  by (relation "measure id") auto

declare String_of.simps [simp del]

definition nl :: string where
  "nl = [CHR 0x0A]"

subsection \<open>The target directory\<close>

datatype node = File string | Dir

text \<open>
  The target directory is a listing: pairs of a path relative to it and what is at the
  path. Something exists at a path when the path is listed or when something below it
  is listed; where a path is listed twice, the first entry counts. \<open>Dir\<close> lists a
  directory, which matters for an empty one.
\<close>

type_synonym tree = "(string \<times> node) list"
type_synonym disk = "tree option"

text \<open>\<open>q\<close> lies below \<open>p\<close>; \<open>q\<close> is \<open>p\<close> or lies below it.\<close>

definition under :: "string \<Rightarrow> string \<Rightarrow> bool" where
  "under p q = (take (Suc (length p)) q = p @ ''/'')"

definition within :: "string \<Rightarrow> string \<Rightarrow> bool" where
  "within p q = (q = p \<or> under p q)"

definition present :: "string \<Rightarrow> tree \<Rightarrow> bool" where
  "present p t = list_ex (\<lambda>x. within p (fst x)) t"

definition is_directory :: "string \<Rightarrow> tree \<Rightarrow> bool" where
  "is_directory p t = (map_of t p = Some Dir \<or> list_ex (\<lambda>x. under p (fst x)) t)"

datatype errno = ENOENT | EEXIST

text \<open>\<^verbatim>\<open>fs.promises.open(p, 'wx')\<close> followed by \<^verbatim>\<open>writeFile(content)\<close>: exclusive creation.\<close>

definition open_wx :: "string \<Rightarrow> string \<Rightarrow> disk \<Rightarrow> errno + disk" where
  "open_wx p content d =
     (case d of
        None \<Rightarrow> Inl ENOENT
      | Some t \<Rightarrow> (if present p t then Inl EEXIST else Inr (Some ((p, File content) # t))))"

text \<open>\<^verbatim>\<open>fs.promises.rm(p, { recursive: true, force: true }).catch(() => {})\<close>: the path goes
  with everything below it; a path that is not there is no error. Faults of the file
  system itself (a removal refused for lack of permission, say) are outside the model.\<close>

definition rm_force :: "string \<Rightarrow> disk \<Rightarrow> disk" where
  "rm_force p d =
     (case d of None \<Rightarrow> None | Some t \<Rightarrow> Some (filter (\<lambda>x. \<not> within p (fst x)) t))"

text \<open>\<^verbatim>\<open>fs.existsSync(path.join(appDir, p))\<close>\<close>

definition existsSync :: "string \<Rightarrow> disk \<Rightarrow> bool" where
  "existsSync p d = (case d of None \<Rightarrow> False | Some t \<Rightarrow> present p t)"

text \<open>\<^verbatim>\<open>fs.promises.readFile(p, 'utf-8').catch(() => '')\<close>\<close>

definition readFile_or_empty :: "string \<Rightarrow> disk \<Rightarrow> string" where
  "readFile_or_empty p d =
     (case d of
        None \<Rightarrow> []
      | Some t \<Rightarrow>
          (if is_directory p t then []
           else (case map_of t p of Some (File c) \<Rightarrow> c | Some Dir \<Rightarrow> [] | None \<Rightarrow> [])))"

text \<open>\<^verbatim>\<open>fs.promises.writeFile(p, c).catch(() => {})\<close>: nothing happens when the target
  directory is missing or the path is a directory.\<close>

definition writeFile_quiet :: "string \<Rightarrow> string \<Rightarrow> disk \<Rightarrow> disk" where
  "writeFile_quiet p c d =
     (case d of
        None \<Rightarrow> None
      | Some t \<Rightarrow>
          (if is_directory p t then Some t
           else Some ((p, File c) # filter (\<lambda>x. fst x \<noteq> p) t)))"

subsection \<open>Environment, effects and state\<close>

text \<open>How the promise of \<^verbatim>\<open>runNpm\<close> is resolved: by the \<^verbatim>\<open>close\<close> event (exit code or
  \<^verbatim>\<open>null\<close>, with the output collected), or by the \<^verbatim>\<open>error\<close> event (output so far and
  the error's message).\<close>

datatype proc_event = Closed "int option" string | SpawnError string string

text \<open>What \<^verbatim>\<open>generateApp\<close> does: throws, or returns the parsed JSON, whose \<^verbatim>\<open>files\<close>
  member is missing or a mapping of relative paths to contents.\<close>

datatype gen_outcome = GenThrows string | GenReturns "(string \<times> string) list option"

text \<open>How one health request is resolved: a response with its status code
  (\<^verbatim>\<open>undefined\<close> is \<open>None\<close>), the \<^verbatim>\<open>error\<close> event or the \<^verbatim>\<open>timeout\<close> event.\<close>

datatype probe = Responded "nat option" | ConnError | ReqTimeout

text \<open>One iteration of the readiness loop as the handler sees it: the chunks the dev
  server wrote on its two streams while the handler was waiting, and the probe.\<close>

record tick =
  out_chunks :: "string list"
  err_chunks :: "string list"
  probed :: probe

datatype event =
    Spawned "string list"
  | Removed string
  | HashWritten string
  | Generated string string
  | AppDirRemoved
  | AppDirCreated
  | FileWritten string
  | PortReclaimed nat
  | DevServerLaunched
  | Slept nat
  | Probed

record env =
  prompt :: "string option"
  api_key :: "string option"
  holder :: string
  npm :: "nat \<Rightarrow> string list \<Rightarrow> disk \<Rightarrow> proc_event \<times> disk"
  generator :: "nat \<Rightarrow> string \<Rightarrow> string \<Rightarrow> gen_outcome"
  findForbiddenNextDocumentUsage :: "disk \<Rightarrow> string option"
  ticks :: "nat \<Rightarrow> tick"
  fs_message :: "string \<Rightarrow> string \<Rightarrow> string"

record st =
  disk_of :: disk
  trace :: "event list"

datatype exn = Error string

record proc_result =
  code :: int
  outp :: string

subsection \<open>Subprocesses and the compile gate\<close>

definition resolve_npm :: "string \<Rightarrow> proc_event \<Rightarrow> proc_result" where
  "resolve_npm label ev =
     (case ev of
        Closed c out \<Rightarrow> \<lparr>code = (case c of None \<Rightarrow> 1 | Some k \<Rightarrow> k), outp = out\<rparr>
      | SpawnError out msg \<Rightarrow>
          \<lparr>code = 1, outp = out @ nl @ label @ '' spawn error: '' @ msg\<rparr>)"

definition runNpm :: "env \<Rightarrow> string list \<Rightarrow> string \<Rightarrow> st \<Rightarrow> proc_result \<times> st" where
  "runNpm e args label s =
     (let (ev, d) = npm e (length (trace s)) args (disk_of s)
      in (resolve_npm label ev, \<lparr>disk_of = d, trace = trace s @ [Spawned args]\<rparr>))"

record compile_result =
  ok :: bool
  build_output :: string

definition runCompileGate :: "env \<Rightarrow> st \<Rightarrow> compile_result \<times> st" where
  "runCompileGate e s =
     (let (res, s') = runNpm e [''run'', ''build''] ''npm run build'' s
      in (\<lparr>ok = (code res = 0), build_output = outp res\<rparr>, s'))"

subsection \<open>The dependency installer\<close>

definition signals :: "string list" where
  "signals =
     [''TAR_ENTRY_ERROR'',
      ''ENOENT: no such file or directory, open'',
      ''Cannot find module'',
      ''@swc/helpers'',
      ''caniuse-lite/dist/unpacker/agents'']"

definition looksLikeCorruptInstall :: "string \<Rightarrow> bool" where
  "looksLikeCorruptInstall out = list_ex (\<lambda>s. js_includes out s) signals"

definition rm_step :: "string \<Rightarrow> st \<Rightarrow> st" where
  "rm_step p s = \<lparr>disk_of = rm_force p (disk_of s), trace = trace s @ [Removed p]\<rparr>"

definition cleanGeneratedAppBuildState :: "st \<Rightarrow> st" where
  "cleanGeneratedAppBuildState s =
     rm_step ''.install.hash'' (rm_step ''package-lock.json'' (rm_step ''node_modules''
       (rm_step ''.next'' s)))"

definition computeInstallHash :: "disk \<Rightarrow> string" where
  "computeInstallHash d =
     (let pkg = readFile_or_empty ''package.json'' d;
          lock = readFile_or_empty ''package-lock.json'' d;
          data = pkg @ nl @ ''---'' @ nl @ lock;
          h = foldl (\<lambda>h c. h * 31 + of_char c) (0 :: 32 word) data
      in String_of (unat h))"

definition write_hash :: "string \<Rightarrow> st \<Rightarrow> st" where
  "write_hash h s =
     \<lparr>disk_of = writeFile_quiet ''.install.hash'' h (disk_of s),
      trace = trace s @ [HashWritten h]\<rparr>"

definition runNpmInstallWithFallback :: "env \<Rightarrow> st \<Rightarrow> (exn + unit) \<times> st" where
  "runNpmInstallWithFallback e s0 =
     (let desiredHash = computeInstallHash (disk_of s0);
          lastHash = readFile_or_empty ''.install.hash'' (disk_of s0)
      in if trim lastHash = desiredHash \<and> existsSync ''node_modules'' (disk_of s0)
         then (Inr (), s0)
         else
           let hasLock = existsSync ''package-lock.json'' (disk_of s0);
               installCmd = (if hasLock then [''ci''] else [''install'']);
               label = (if hasLock then ''npm ci'' else ''npm install'');
               (first, s1) = runNpm e installCmd label s0
           in if code first = 0 then (Inr (), write_hash desiredHash s1)
              else if looksLikeCorruptInstall (outp first) then
                let s2 = cleanGeneratedAppBuildState s1;
                    (retry, s3) = runNpm e installCmd (label @ '' (retry)'') s2
                in if code retry = 0 then (Inr (), write_hash desiredHash s3)
                   else (Inl (Error (label @ '' failed even after cleaning.'' @ nl @ nl
                                      @ outp retry)), s3)
              else if \<not> hasLock then
                let (second, s2) =
                      runNpm e [''install'', ''--legacy-peer-deps'']
                        ''npm install --legacy-peer-deps'' s1
                in if code second = 0 then (Inr (), write_hash desiredHash s2)
                   else
                     let s3 = (if looksLikeCorruptInstall (outp second)
                               then cleanGeneratedAppBuildState s2 else s2)
                     in (Inl (Error (''npm install failed.'' @ nl @ nl
                                      @ (if outp second \<noteq> [] then outp second
                                         else outp first))), s3)
              else (Inl (Error (label @ '' failed.'' @ nl @ nl @ outp first)), s1))"

subsection \<open>The Generator and \<^verbatim>\<open>AppBuilder.writeFiles\<close>\<close>

text \<open>The directories above a relative path, outermost first: what
  \<^verbatim>\<open>mkdir(path.dirname(fullPath), { recursive: true })\<close> creates. Paths are taken as
  normalised (no \<^verbatim>\<open>.\<close> or \<^verbatim>\<open>..\<close> segments).\<close>

fun parents :: "string \<Rightarrow> string \<Rightarrow> string list" where
  "parents acc [] = []"
| "parents acc (c # cs) =
     (if c = CHR ''/'' \<and> acc \<noteq> [] then acc # parents (acc @ [c]) cs
      else parents (acc @ [c]) cs)"

text \<open>\<^verbatim>\<open>mkdir\<close> of these directories, outermost first: it fails where a file is in the
  way, and what it created before stays.\<close>

fun mkdir_p :: "env \<Rightarrow> string list \<Rightarrow> tree \<Rightarrow> (exn + unit) \<times> tree" where
  "mkdir_p e [] t = (Inr (), t)"
| "mkdir_p e (p # ps) t =
     (if present p t then
        (if is_directory p t then mkdir_p e ps t
         else (Inl (Error (fs_message e ''mkdir'' p)), t))
      else mkdir_p e ps ((p, Dir) # t))"

text \<open>The loop over \<^verbatim>\<open>Object.entries(files)\<close>.\<close>

fun write_entries ::
  "env \<Rightarrow> (string \<times> string) list \<Rightarrow> tree \<Rightarrow> event list \<Rightarrow> (exn + unit) \<times> st" where
  "write_entries e [] t tr = (Inr (), \<lparr>disk_of = Some t, trace = tr\<rparr>)"
| "write_entries e ((filePath, content) # rest) t tr =
     (case mkdir_p e (parents [] filePath) t of
        (Inl x, t1) \<Rightarrow> (Inl x, \<lparr>disk_of = Some t1, trace = tr\<rparr>)
      | (Inr _, t1) \<Rightarrow>
          (if is_directory filePath t1
           then (Inl (Error (fs_message e ''open'' filePath)), \<lparr>disk_of = Some t1, trace = tr\<rparr>)
           else write_entries e rest
                  ((filePath, File content) # filter (\<lambda>x. fst x \<noteq> filePath) t1)
                  (tr @ [FileWritten filePath])))"

text \<open>\<^verbatim>\<open>writeFiles\<close>: the builder's directory is the handler's \<^verbatim>\<open>appDir\<close>. An existing
  directory is removed with everything in it and created again; then
  \<^verbatim>\<open>Object.entries\<close> throws a \<^verbatim>\<open>TypeError\<close> on a missing \<^verbatim>\<open>files\<close> member.\<close>

definition writeFiles ::
  "env \<Rightarrow> (string \<times> string) list option \<Rightarrow> st \<Rightarrow> (exn + unit) \<times> st" where
  "writeFiles e files s =
     (let s1 = (if disk_of s \<noteq> None
                then \<lparr>disk_of = None, trace = trace s @ [AppDirRemoved]\<rparr> else s);
          t = (case disk_of s1 of None \<Rightarrow> [] | Some t0 \<Rightarrow> t0);
          tr = trace s1 @ [AppDirCreated]
      in case files of
           None \<Rightarrow> (Inl (Error ''Cannot convert undefined or null to object''),
                     \<lparr>disk_of = Some t, trace = tr\<rparr>)
         | Some entries \<Rightarrow> write_entries e entries t tr)"

text \<open>The value of a string that passes \<^verbatim>\<open>if (v)\<close>: neither missing nor empty.\<close>

definition truthy :: "string option \<Rightarrow> string option" where
  "truthy v = (case v of None \<Rightarrow> None | Some x \<Rightarrow> (if x = [] then None else Some x))"

definition maybeAutoRepair :: "env \<Rightarrow> string \<Rightarrow> st \<Rightarrow> (exn + bool) \<times> st" where
  "maybeAutoRepair e errorContext s =
     (case truthy (prompt e) of
        None \<Rightarrow> (Inr False, s)
      | Some p \<Rightarrow>
          (case truthy (api_key e) of
             None \<Rightarrow> (Inr False, s)
           | Some apiKey \<Rightarrow>
               (let s1 = \<lparr>disk_of = disk_of s, trace = trace s @ [Generated p errorContext]\<rparr>
                in case generator e (length (trace s)) p errorContext of
                     GenThrows m \<Rightarrow> (Inl (Error m), s1)
                   | GenReturns files \<Rightarrow>
                       (case writeFiles e files s1 of
                          (Inl x, s2) \<Rightarrow> (Inl x, s2)
                        | (Inr _, s2) \<Rightarrow> (Inr True, s2)))))"

subsection \<open>Responses\<close>

record response =
  status :: nat
  success :: bool
  error_text :: string
  url :: string
  stdout_text :: "string option"
  stderr_text :: "string option"
  suggestion :: "string option"

definition failure :: "nat \<Rightarrow> string \<Rightarrow> response" where
  "failure code_no msg =
     \<lparr>status = code_no, success = False, error_text = msg, url = [],
      stdout_text = None, stderr_text = None, suggestion = None\<rparr>"

definition resp_busy :: response where
  "resp_busy = failure 409
     ''Build already in progress. Please wait for the current build to finish and try again.''"

definition resp_not_found :: response where
  "resp_not_found = failure 404 ''Generated app directory not found''"

definition resp_forbidden :: "string \<Rightarrow> response" where
  "resp_forbidden forbidden =
     (failure 500 (''Forbidden Next.js usage detected: '' @ forbidden))
       \<lparr>suggestion := Some ''Remove any use of next/document or <Html>/<Head>/<Main>/<NextScript>. This project uses App Router; only use lowercase <html>/<body> in app/layout.tsx.''\<rparr>"

definition resp_forbidden_unrepaired :: response where
  "resp_forbidden_unrepaired =
     (failure 500 ''Forbidden Next.js usage detected and auto-repair was not possible (missing prompt or OPENAI_API_KEY)'')
       \<lparr>suggestion := Some ''Provide the prompt to /api/build-app and ensure OPENAI_API_KEY is configured so auto-repair can run.''\<rparr>"

definition resp_compile_failed :: "string \<Rightarrow> response" where
  "resp_compile_failed out =
     (failure 500 ''Compile gate failed: next build did not succeed'')
       \<lparr>stderr_text := Some out,
        suggestion := Some ''The generated app has a compile error. Try regenerating or inspect generated-app/app/page.tsx around the reported line.''\<rparr>"

definition resp_compile_unrepaired :: "string \<Rightarrow> response" where
  "resp_compile_unrepaired out =
     (failure 500 ''Compile gate failed and auto-repair was not possible (missing prompt or OPENAI_API_KEY)'')
       \<lparr>stderr_text := Some out\<rparr>"

definition resp_runtime_failure :: "string \<Rightarrow> string \<Rightarrow> response" where
  "resp_runtime_failure out err =
     (failure 500 ''Server started but is returning 500 errors. Likely a compilation/build error in the generated app.'')
       \<lparr>stdout_text := Some out, stderr_text := Some err,
        suggestion := Some ''Check the generated app files for errors. Common issues: missing \"use client\" directive, invalid imports, or syntax errors.''\<rparr>"

definition resp_timeout :: "string \<Rightarrow> string \<Rightarrow> response" where
  "resp_timeout out err =
     (failure 500 ''Dev server failed to start within 30 seconds'')
       \<lparr>stdout_text := Some out, stderr_text := Some err\<rparr>"

definition resp_success :: response where
  "resp_success =
     \<lparr>status = 200, success = True, error_text = [], url = ''http://localhost:3000'',
      stdout_text = None, stderr_text = None, suggestion = None\<rparr>"

definition resp_fatal :: "exn \<Rightarrow> response" where
  "resp_fatal x = (case x of Error m \<Rightarrow> failure 500 m)"

subsection \<open>The repair loop\<close>

definition MAX_REPAIR_ATTEMPTS :: nat where
  "MAX_REPAIR_ATTEMPTS = 2"

definition forbidden_context :: "string \<Rightarrow> string" where
  "forbidden_context forbidden =
     ''FORBIDDEN NEXT.JS USAGE DETECTED: '' @ forbidden @ nl @ nl
     @ ''This project uses Next.js App Router (app/). You MUST remove all imports from 'next/document' and remove any usage of <Html>, <Head>, <Main>, <NextScript> components.''
     @ nl @ nl
     @ ''Fix the project and return the full corrected JSON with ALL required files.''"

definition compile_context :: "nat \<Rightarrow> string \<Rightarrow> string" where
  "compile_context attempt out =
     ''next build failed (attempt '' @ String_of (attempt + 1) @ ''/''
     @ String_of MAX_REPAIR_ATTEMPTS @ ''). Here is the full output:'' @ nl @ nl @ out"

text \<open>How the \<^verbatim>\<open>for\<close> loop is left: by \<^verbatim>\<open>break\<close>, because its condition
  \<^verbatim>\<open>attempt <= MAX_REPAIR_ATTEMPTS\<close> is false, by a \<^verbatim>\<open>return\<close> or by a throw.\<close>

datatype loop_exit = Break | ConditionFalse | Returns response | Throws exn

text \<open>What one run of the loop body does to the control flow: it leaves the loop, or it
  goes on to \<^verbatim>\<open>attempt++\<close> (by \<^verbatim>\<open>continue\<close> or by reaching the end of the body).\<close>

datatype flow = Leave loop_exit | Increment

definition attempt_body :: "env \<Rightarrow> nat \<Rightarrow> st \<Rightarrow> flow \<times> st" where
  "attempt_body e attempt s =
     (case truthy (findForbiddenNextDocumentUsage e (disk_of s)) of
        Some forbidden \<Rightarrow>
          (if attempt = MAX_REPAIR_ATTEMPTS then (Leave (Returns (resp_forbidden forbidden)), s)
           else
             (case maybeAutoRepair e (forbidden_context forbidden) s of
                (Inl x, s1) \<Rightarrow> (Leave (Throws x), s1)
              | (Inr repaired, s1) \<Rightarrow>
                  (if \<not> repaired then (Leave (Returns resp_forbidden_unrepaired), s1)
                   else
                     (case runNpmInstallWithFallback e s1 of
                        (Inl x, s2) \<Rightarrow> (Leave (Throws x), s2)
                      | (Inr _, s2) \<Rightarrow> (Increment, s2)))))
      | None \<Rightarrow>
          (case runCompileGate e s of
             (buildRes, s1) \<Rightarrow>
               (if ok buildRes then (Leave Break, s1)
                else if looksLikeCorruptInstall (build_output buildRes) then
                  (case runNpmInstallWithFallback e (cleanGeneratedAppBuildState s1) of
                     (Inl x, s2) \<Rightarrow> (Leave (Throws x), s2)
                   | (Inr _, s2) \<Rightarrow> (Increment, s2))
                else if attempt = MAX_REPAIR_ATTEMPTS
                  then (Leave (Returns (resp_compile_failed (build_output buildRes))), s1)
                else
                  (case maybeAutoRepair e (compile_context attempt (build_output buildRes)) s1 of
                     (Inl x, s2) \<Rightarrow> (Leave (Throws x), s2)
                   | (Inr repaired, s2) \<Rightarrow>
                       (if \<not> repaired
                        then (Leave (Returns (resp_compile_unrepaired (build_output buildRes))), s2)
                        else
                          (case runNpmInstallWithFallback e s2 of
                             (Inl x, s3) \<Rightarrow> (Leave (Throws x), s3)
                           | (Inr _, s3) \<Rightarrow> (Increment, s3)))))))"

text \<open>\<^verbatim>\<open>for (let attempt = 0; attempt <= MAX_REPAIR_ATTEMPTS; attempt++)\<close>, from the test of
  the condition at a given value of \<^verbatim>\<open>attempt\<close>.\<close>

function repair_loop :: "env \<Rightarrow> nat \<Rightarrow> st \<Rightarrow> loop_exit \<times> st" where
  "repair_loop e attempt s =
     (if attempt \<le> MAX_REPAIR_ATTEMPTS then
        (case attempt_body e attempt s of
           (Leave x, s1) \<Rightarrow> (x, s1)
         | (Increment, s1) \<Rightarrow> repair_loop e (attempt + 1) s1)
      else (ConditionFalse, s))"
  by pat_completeness auto
termination
  by (relation "measure (\<lambda>(e, attempt, s). Suc MAX_REPAIR_ATTEMPTS - attempt)") auto

declare repair_loop.simps [simp del]

subsection \<open>Launch and the readiness loop\<close>

definition MAX_CONSECUTIVE_500 :: nat where
  "MAX_CONSECUTIVE_500 = 5"

record hstate =
  consecutive500Errors :: nat
  serverReady :: bool
  stdOutput :: string
  errorOutput :: string
  htrace :: "event list"

text \<open>The \<^verbatim>\<open>data\<close> handlers of the dev server's two streams.\<close>

definition stdout_marker :: "string \<Rightarrow> bool" where
  "stdout_marker text =
     (js_includes text ''Ready'' \<or> js_includes text ''Local:''
      \<or> js_includes text ''localhost:3000'' \<or> js_includes text ''started server'')"

definition stderr_marker :: "string \<Rightarrow> bool" where
  "stderr_marker text = (js_includes text ''Ready'' \<or> js_includes text ''Local:'')"

definition on_stdout :: "hstate \<Rightarrow> string \<Rightarrow> hstate" where
  "on_stdout h text =
     h\<lparr>stdOutput := stdOutput h @ text,
       serverReady := (if stdout_marker text then True else serverReady h)\<rparr>"

definition on_stderr :: "hstate \<Rightarrow> string \<Rightarrow> hstate" where
  "on_stderr h text =
     h\<lparr>errorOutput := errorOutput h @ text,
       serverReady := (if stderr_marker text then True else serverReady h)\<rparr>"

definition deliver :: "tick \<Rightarrow> hstate \<Rightarrow> hstate" where
  "deliver t h = foldl on_stderr (foldl on_stdout h (out_chunks t)) (err_chunks t)"

text \<open>The object \<^verbatim>\<open>{ ready, statusCode }\<close> that the probe's promise resolves to.\<close>

definition serverStatus :: "probe \<Rightarrow> bool \<times> nat option" where
  "serverStatus p =
     (case p of
        Responded sc \<Rightarrow>
          (let statusCode = (case sc of None \<Rightarrow> 0 | Some c \<Rightarrow> c)
           in (200 \<le> statusCode \<and> statusCode < 500, Some statusCode))
      | ConnError \<Rightarrow> (False, None)
      | ReqTimeout \<Rightarrow> (False, None))"

text \<open>How the readiness loop is left: by the \<^verbatim>\<open>return\<close> on consecutive 500s, or
  otherwise (\<^verbatim>\<open>break\<close>, or thirty iterations done).\<close>

datatype health_exit = Returned500 | LoopLeft

text \<open>One run of the body of the readiness loop, at tick \<open>t\<close>: the one-second wait, the
  probe, the chunks that arrived meanwhile, and the two tests. \<open>None\<close> is going on to
  \<^verbatim>\<open>i++\<close>.\<close>

definition poll :: "tick \<Rightarrow> hstate \<Rightarrow> health_exit option \<times> hstate" where
  "poll t h =
     (let h1 = deliver t (h\<lparr>htrace := htrace h @ [Slept 1000, Probed]\<rparr>);
          (ready, statusCode) = serverStatus (probed t);
          h2 = (if statusCode = Some 500
                then h1\<lparr>consecutive500Errors := consecutive500Errors h1 + 1\<rparr>
                else h1\<lparr>consecutive500Errors := 0\<rparr>)
      in if statusCode = Some 500 \<and> consecutive500Errors h2 \<ge> MAX_CONSECUTIVE_500
         then (Some Returned500, h2)
         else if ready then (Some LoopLeft, h2\<lparr>serverReady := True\<rparr>)
         else (None, h2))"

text \<open>\<^verbatim>\<open>for (let i = 0; i < 30; i++)\<close>, from the test of the condition at a given \<open>i\<close>.\<close>

function health_loop :: "(nat \<Rightarrow> tick) \<Rightarrow> nat \<Rightarrow> hstate \<Rightarrow> health_exit \<times> hstate" where
  "health_loop tk i h =
     (if i < 30 then
        (case poll (tk i) h of
           (Some x, h1) \<Rightarrow> (x, h1)
         | (None, h1) \<Rightarrow> health_loop tk (i + 1) h1)
      else (LoopLeft, h))"
  by pat_completeness auto
termination
  by (relation "measure (\<lambda>(tk, i, h). 30 - i)") auto

declare health_loop.simps [simp del]

definition health_response :: "health_exit \<times> hstate \<Rightarrow> response" where
  "health_response r =
     (case r of
        (Returned500, h) \<Rightarrow> resp_runtime_failure (stdOutput h) (errorOutput h)
      | (LoopLeft, h) \<Rightarrow>
          (if \<not> serverReady h then resp_timeout (stdOutput h) (errorOutput h)
           else resp_success))"

definition initial_hstate :: "event list \<Rightarrow> hstate" where
  "initial_hstate tr =
     \<lparr>consecutive500Errors = 0, serverReady = False, stdOutput = [], errorOutput = [],
      htrace = tr\<rparr>"

text \<open>Port reclaim (best effort, every failure caught), launch of the detached dev
  server, and the readiness loop.\<close>

definition launch_and_probe :: "env \<Rightarrow> st \<Rightarrow> response \<times> st" where
  "launch_and_probe e s =
     (let r = health_loop (ticks e) 0
                (initial_hstate (trace s @ [PortReclaimed 3000, DevServerLaunched]))
      in (health_response r, \<lparr>disk_of = disk_of s, trace = htrace (snd r)\<rparr>))"

subsection \<open>The handler\<close>

text \<open>The body of the outer \<^verbatim>\<open>try\<close> after the lock and the directory check.\<close>

definition pipeline :: "env \<Rightarrow> st \<Rightarrow> (exn + response) \<times> st" where
  "pipeline e s =
     (case runNpmInstallWithFallback e s of
        (Inl x, s1) \<Rightarrow> (Inl x, s1)
      | (Inr _, s1) \<Rightarrow>
          (case repair_loop e 0 s1 of
             (Throws x, s2) \<Rightarrow> (Inl x, s2)
           | (Returns r, s2) \<Rightarrow> (Inr r, s2)
           | (Break, s2) \<Rightarrow> (case launch_and_probe e s2 of (r, s3) \<Rightarrow> (Inr r, s3))
           | (ConditionFalse, s2) \<Rightarrow> (case launch_and_probe e s2 of (r, s3) \<Rightarrow> (Inr r, s3))))"

definition lockPath :: string where
  "lockPath = ''.build.lock''"

text \<open>The outer \<^verbatim>\<open>try\<close> block: every \<^verbatim>\<open>return\<close> of the handler and its \<^verbatim>\<open>catch\<close>.\<close>

definition POST_try :: "env \<Rightarrow> disk \<Rightarrow> response \<times> st" where
  "POST_try e d0 =
     (case open_wx lockPath (holder e) d0 of
        Inl err \<Rightarrow> (resp_busy, \<lparr>disk_of = d0, trace = []\<rparr>)
      | Inr d1 \<Rightarrow>
          (if d1 = None then (resp_not_found, \<lparr>disk_of = d1, trace = []\<rparr>)
           else
             (case pipeline e \<lparr>disk_of = d1, trace = []\<rparr> of
                (Inl x, s) \<Rightarrow> (resp_fatal x, s)
              | (Inr r, s) \<Rightarrow> (r, s))))"

text \<open>The \<^verbatim>\<open>finally\<close> block: \<^verbatim>\<open>rm(lockPath, { force: true })\<close>, on every path.\<close>

definition POST :: "env \<Rightarrow> disk \<Rightarrow> response \<times> st" where
  "POST e d0 = (case POST_try e d0 of (r, s) \<Rightarrow> (r, rm_step lockPath s))"

subsection \<open>Concurrent requests on one directory\<close>

text \<open>
  Requests to the endpoint run in one Node.js process and interleave at their
  \<^verbatim>\<open>await\<close>s. For the lock two steps of a request matter, each atomic: the
  exclusive creation of the marker and the \<^verbatim>\<open>finally\<close> block, which every request
  runs, refused or not. A request is
  \<open>Pending\<close> before its \<^verbatim>\<open>open\<close>, \<open>Building\<close> once past the lock, \<open>Refused\<close> when its
  409 response is decided and its \<^verbatim>\<open>finally\<close> has not run yet, and \<open>Done\<close> at the end.
\<close>

datatype phase = Pending | Building | Refused | Done

record sys =
  shared :: disk
  phases :: "phase list"

text \<open>\<open>Open i who\<close> is request \<open>i\<close> running its \<^verbatim>\<open>open(lockPath, 'wx')\<close>; \<open>Finally i\<close> is
  request \<open>i\<close> running its \<^verbatim>\<open>finally\<close> block. A step that the request cannot take at its
  phase is \<open>None\<close>.\<close>

datatype action = Open nat string | Finally nat

fun perform :: "action \<Rightarrow> sys \<Rightarrow> sys option" where
  "perform (Open i who) c =
     (if i < length (phases c) \<and> phases c ! i = Pending then
        (case open_wx lockPath who (shared c) of
           Inr d \<Rightarrow> Some \<lparr>shared = d, phases = (phases c)[i := Building]\<rparr>
         | Inl err \<Rightarrow> Some \<lparr>shared = shared c, phases = (phases c)[i := Refused]\<rparr>)
      else None)"
| "perform (Finally i) c =
     (if i < length (phases c) \<and> (phases c ! i = Refused \<or> phases c ! i = Building) then
        Some \<lparr>shared = rm_force lockPath (shared c), phases = (phases c)[i := Done]\<rparr>
      else None)"

fun schedule :: "action list \<Rightarrow> sys \<Rightarrow> sys option" where
  "schedule [] c = Some c"
| "schedule (a # as) c = (case perform a c of None \<Rightarrow> None | Some c' \<Rightarrow> schedule as c')"

definition past_lock :: "sys \<Rightarrow> nat" where
  "past_lock c = length (filter (\<lambda>p. p = Building) (phases c))"

subsection \<open>Names for parts of the installer\<close>



subsection \<open>Concrete environments and directories\<close>

text \<open>An environment whose subprocesses all behave as \<open>run\<close>, with no prompt and no key,
  a silent validator and a dev server that answers 200 at once.\<close>

definition stamp :: string where
  "stamp = ''4242 2024-01-01T00:00:00.000Z'' @ nl"

definition fixed_env :: "(string list \<Rightarrow> disk \<Rightarrow> proc_event \<times> disk) \<Rightarrow> env" where
  "fixed_env run =
     \<lparr>prompt = None, api_key = None, holder = stamp,
      npm = (\<lambda>k. run), generator = (\<lambda>k p c. GenThrows ''unavailable''),
      findForbiddenNextDocumentUsage = (\<lambda>d. None),
      ticks = (\<lambda>i. \<lparr>out_chunks = [], err_chunks = [], probed = Responded (Some 200)\<rparr>),
      fs_message = (\<lambda>call p. call @ '' failed at '' @ p)\<rparr>"

text \<open>A directory whose fingerprint marker is the fingerprint of its manifest.\<close>

definition installed_disk :: disk where
  "installed_disk =
     Some [(''package.json'', File ''{}''), (''node_modules'', Dir),
           (''.install.hash'', File ''1083067397'')]"

text \<open>A directory with a manifest and nothing installed.\<close>

definition fresh_disk :: disk where
  "fresh_disk = Some [(''package.json'', File ''{}'')]"

text \<open>An \<^verbatim>\<open>npm\<close> that always fails on a truncated archive entry and changes nothing.\<close>

definition tar_error :: "string list \<Rightarrow> disk \<Rightarrow> proc_event \<times> disk" where
  "tar_error args d = (Closed (Some 1) ''npm ERR! code TAR_ENTRY_ERROR'', d)"

text \<open>A build that fails exactly when a \<^verbatim>\<open>.next\<close> directory is there when it starts,
  and a directory that has one.\<close>

definition stale_sensitive :: "string list \<Rightarrow> disk \<Rightarrow> proc_event \<times> disk" where
  "stale_sensitive args d =
     (if existsSync ''.next'' d then (Closed (Some 1) ''stale build output'', d)
      else (Closed (Some 0) [], d))"

definition stale_disk :: disk where
  "stale_disk = Some [(''package.json'', File ''{}''), (''.next/BUILD_ID'', File ''abc'')]"

text \<open>An environment in which repair is possible: a prompt, a key, and a Generator that
  always answers \<open>g\<close>.\<close>

definition repairing_env :: "(string list \<Rightarrow> disk \<Rightarrow> proc_event \<times> disk) \<Rightarrow> gen_outcome \<Rightarrow> env" where
  "repairing_env run g =
     (fixed_env run)\<lparr>prompt := Some ''build a todo app'', api_key := Some ''sk-test'',
                     generator := (\<lambda>k p c. g)\<rparr>"

text \<open>The state after \<^verbatim>\<open>generateApp\<close> was called and \<^verbatim>\<open>writeFiles\<close> removed and recreated
  the directory, with nothing written into it.\<close>

definition wiped :: "st \<Rightarrow> string \<Rightarrow> string \<Rightarrow> st" where
  "wiped s p ctx =
     \<lparr>disk_of = Some [],
      trace = trace s @ [Generated p ctx]
              @ (if disk_of s \<noteq> None then [AppDirRemoved] else []) @ [AppDirCreated]\<rparr>"

definition html_finding :: string where
  "html_finding = ''<Html> usage found in app/layout.tsx''"

subsection \<open>Counting the calls of the Generator\<close>

fun is_Generated :: "event \<Rightarrow> bool" where
  "is_Generated (Generated p c) = True"
| "is_Generated _ = False"

definition generations :: "event list \<Rightarrow> nat" where
  "generations tr = length (filter is_Generated tr)"

subsection \<open>More concrete environments\<close>

text \<open>A build that always fails because a module of the generated code cannot be
  found; every other subprocess succeeds and changes nothing.\<close>

definition missing_module_build :: "string list \<Rightarrow> disk \<Rightarrow> proc_event \<times> disk" where
  "missing_module_build args d =
     (if args = [''run'', ''build'']
      then (Closed (Some 1) ''Type error: Cannot find module 'chart.js' or its corresponding type declarations.'', d)
      else (Closed (Some 0) [], d))"

text \<open>An environment fault that a reinstall heals: the first effect of the request is an
  install that is cut short and leaves \<^verbatim>\<open>node_modules\<close> empty; every later install puts
  the helper package there. A build fails on the missing helper while it is missing, and
  on a type error of the generated code otherwise; no build succeeds.\<close>

definition cut_short_install :: "nat \<Rightarrow> string list \<Rightarrow> disk \<Rightarrow> proc_event \<times> disk" where
  "cut_short_install k args d =
     (if args = [''run'', ''build'']
      then (if existsSync ''node_modules/@swc/helpers/package.json'' d
            then (Closed (Some 1) ''Type error: missing prop'', d)
            else (Closed (Some 1) ''Error: Cannot find module '@swc/helpers' (require stack)'', d))
      else (Closed (Some 0) [],
            (case d of
               None \<Rightarrow> None
             | Some t \<Rightarrow>
                 Some ((if k = 0 then [(''node_modules'', Dir)]
                        else [(''node_modules/@swc/helpers/package.json'', File ''{}'')]) @ t))))"

definition healing_env :: env where
  "healing_env =
     (fixed_env (cut_short_install 0))
       \<lparr>prompt := Some ''build a todo app'', api_key := Some ''sk-test'',
        npm := cut_short_install,
        generator := (\<lambda>k p c. GenReturns (Some [(''package.json'', ''{}'')]))\<rparr>"

text \<open>The directory of a request that holds the marker, with the manifest \<^verbatim>\<open>{}\<close>; the
  fingerprint marker of that manifest; the helper package an install puts in place.\<close>

definition locked :: tree where
  "locked = [(''.build.lock'', File stamp), (''package.json'', File ''{}'')]"

definition hashmark :: "string \<times> node" where
  "hashmark = (''.install.hash'', File ''1083067397'')"

definition helper :: "string \<times> node" where
  "helper = (''node_modules/@swc/helpers/package.json'', File ''{}'')"



text \<open>A build that always fails on a type error of the generated code; every other
  subprocess succeeds and changes nothing.\<close>

definition type_error_build :: "string list \<Rightarrow> disk \<Rightarrow> proc_event \<times> disk" where
  "type_error_build args d =
     (if args = [''run'', ''build''] then (Closed (Some 1) ''Type error: missing prop'', d)
      else (Closed (Some 0) [], d))"

subsection \<open>Names for what a tick shows\<close>

text \<open>The probe of the tick resolved to status 500; it resolved to a status in
  \<open>[200, 500)\<close>; a chunk of the tick carries a ready marker.\<close>

definition answers500 :: "tick \<Rightarrow> bool" where
  "answers500 t = (snd (serverStatus (probed t)) = Some 500)"

definition answers_ready :: "tick \<Rightarrow> bool" where
  "answers_ready t = fst (serverStatus (probed t))"

definition marker_seen :: "tick \<Rightarrow> bool" where
  "marker_seen t = (list_ex stdout_marker (out_chunks t) \<or> list_ex stderr_marker (err_chunks t))"

text \<open>A dev server that prints its banner during the first wait and never accepts a
  connection; one that answers 500 every time; one that is silent and unreachable.\<close>

definition banner_only :: "nat \<Rightarrow> tick" where
  "banner_only i =
     \<lparr>out_chunks = (if i = 0 then [''  - Local:        http://localhost:3000''] else []),
      err_chunks = [], probed = ConnError\<rparr>"

definition always500 :: "nat \<Rightarrow> tick" where
  "always500 i = \<lparr>out_chunks = [], err_chunks = [], probed = Responded (Some 500)\<rparr>"

definition unreachable :: "nat \<Rightarrow> tick" where
  "unreachable i = \<lparr>out_chunks = [], err_chunks = [], probed = ReqTimeout\<rparr>"

section \<open>Lemmas\<close>

subsection \<open>The fingerprint is its own trim\<close>

lemma digit_char_not_ws: "\<not> js_whitespace (digit_char k)"
proof -
  have "digit_char k \<in> set ''0123456789''"
    unfolding digit_char_def by (rule nth_mem) simp
  then show ?thesis by (auto simp: js_whitespace_def)
qed

lemma String_of_not_ws: "c \<in> set (String_of n) \<Longrightarrow> \<not> js_whitespace c"
proof (induction n arbitrary: c rule: String_of.induct)
  case (1 n)
  show ?case
  proof (cases "n < 10")
    case True
    with "1.prems" show ?thesis
      by (subst (asm) String_of.simps) (simp add: digit_char_not_ws)
  next
    case False
    with "1.prems" have "c \<in> set (String_of (n div 10)) \<or> c = digit_char (n mod 10)"
      by (subst (asm) String_of.simps) auto
    with False "1.IH" show ?thesis
      by (auto simp: digit_char_not_ws)
  qed
qed

lemma String_of_nonempty: "String_of n \<noteq> []"
  by (subst String_of.simps) simp

lemma trim_id:
  assumes "s \<noteq> []" and "\<And>c. c \<in> set s \<Longrightarrow> \<not> js_whitespace c"
  shows "trim s = s"
proof -
  have "\<not> js_whitespace (hd s)" using assms by simp
  then have a: "dropWhile js_whitespace s = s" by (simp add: dropWhile_eq_self_iff)
  have "\<not> js_whitespace (hd (rev s))" using assms by (simp add: hd_rev)
  then have "dropWhile js_whitespace (rev s) = rev s" by (simp add: dropWhile_eq_self_iff)
  with a show ?thesis by (simp add: trim_def)
qed

lemma trim_String_of: "trim (String_of n) = String_of n"
  using String_of_not_ws by (intro trim_id String_of_nonempty) blast

lemma trim_computeInstallHash: "trim (computeInstallHash d) = computeInstallHash d"
  by (simp add: computeInstallHash_def Let_def trim_String_of)

lemma hash_installed_disk: "computeInstallHash installed_disk = ''1083067397''"
  by (simp add: installed_disk_def computeInstallHash_def readFile_or_empty_def nl_def
        is_directory_def under_def String_of.simps digit_char_def)

subsection \<open>Effects of the small steps\<close>

lemma existsSync_rm_force_same [simp]: "\<not> existsSync p (rm_force p d)"
  by (auto simp: existsSync_def rm_force_def present_def list_ex_iff split: option.splits)


text \<open>After a removal nothing is left at the path or below it.\<close>

lemma rm_force_recursive:
  "rm_force p d = Some t \<Longrightarrow> (q, n) \<in> set t \<Longrightarrow> q \<noteq> p \<and> \<not> under p q"
  by (auto simp: rm_force_def within_def split: option.splits)

lemma trace_runNpm [simp]: "trace (snd (runNpm e args label s)) = trace s @ [Spawned args]"
  by (simp add: runNpm_def Let_def split: prod.splits)

lemma trace_clean [simp]:
  "trace (cleanGeneratedAppBuildState s) =
     trace s @ [Removed ''.next'', Removed ''node_modules'', Removed ''package-lock.json'',
                Removed ''.install.hash'']"
  by (simp add: cleanGeneratedAppBuildState_def rm_step_def)



subsection \<open>The status codes of the handler\<close>

lemma open_wx_creates: "open_wx p c d = Inr d1 \<Longrightarrow> d1 \<noteq> None"
  by (auto simp: open_wx_def split: option.splits if_splits)

lemma status_failure [simp]: "status (failure n m) = n"
  by (simp add: failure_def)

lemma status_health_response:
  "status (health_response x) = 200 \<or> status (health_response x) = 500"
  by (cases x; cases "fst x")
     (auto simp: health_response_def resp_runtime_failure_def resp_timeout_def resp_success_def)

lemma status_attempt_body:
  "attempt_body e a s = (Leave (Returns r), s') \<Longrightarrow> status r = 500"
  by (auto simp: attempt_body_def resp_forbidden_def resp_forbidden_unrepaired_def
        resp_compile_failed_def resp_compile_unrepaired_def
        split: option.splits if_splits prod.splits sum.splits)

lemma status_repair_loop:
  "repair_loop e a s = (Returns r, s') \<Longrightarrow> status r = 500"
proof (induction e a s rule: repair_loop.induct)
  case (1 e attempt s)
  from "1.prems" show ?case
    by (subst (asm) repair_loop.simps)
       (auto split: if_splits prod.splits flow.splits dest: status_attempt_body "1.IH")
qed

lemma status_launch_and_probe:
  "launch_and_probe e s = (r, s') \<Longrightarrow> status r = 200 \<or> status r = 500"
  using status_health_response
    [of "health_loop (ticks e) 0
           (initial_hstate (trace s @ [PortReclaimed 3000, DevServerLaunched]))"]
  by (auto simp: launch_and_probe_def Let_def)

lemma status_pipeline: "pipeline e s = (Inr r, s') \<Longrightarrow> status r = 200 \<or> status r = 500"
  by (auto simp: pipeline_def
        split: prod.splits sum.splits loop_exit.splits
        dest: status_repair_loop status_launch_and_probe)

lemma status_POST: "status (fst (POST e d)) \<in> {200, 409, 500}"
  using status_pipeline [of e]
  by (auto simp: POST_def POST_try_def resp_busy_def resp_fatal_def
        split: prod.splits sum.splits exn.splits dest: open_wx_creates)

subsection \<open>A refused request and the marker\<close>

text \<open>A request that finds the marker in place answers 409, and its \<^verbatim>\<open>finally\<close> block
  removes the marker, which it did not create.\<close>

lemma refused_request_removes_lock:
  assumes "existsSync lockPath d"
  shows "fst (POST e d) = resp_busy"
    and "\<not> existsSync lockPath (disk_of (snd (POST e d)))"
    and "trace (snd (POST e d)) = [Removed lockPath]"
  using assms
proof -
  from assms obtain t where d: "d = Some t" and t: "present lockPath t"
    by (auto simp: existsSync_def split: option.splits)
  then have r: "POST_try e d = (resp_busy, \<lparr>disk_of = d, trace = []\<rparr>)"
    by (simp add: POST_try_def open_wx_def)
  show "fst (POST e d) = resp_busy"
    and "\<not> existsSync lockPath (disk_of (snd (POST e d)))"
    and "trace (snd (POST e d)) = [Removed lockPath]"
    by (simp_all add: POST_def r rm_step_def)
qed

subsection \<open>\<^verbatim>\<open>writeFiles\<close> on a missing and on an empty mapping\<close>

lemma writeFiles_missing:
  "writeFiles e None s =
     (Inl (Error ''Cannot convert undefined or null to object''),
      \<lparr>disk_of = Some [],
       trace = trace s @ (if disk_of s \<noteq> None then [AppDirRemoved] else []) @ [AppDirCreated]\<rparr>)"
  by (simp add: writeFiles_def Let_def)

lemma writeFiles_empty:
  "writeFiles e (Some []) s =
     (Inr (),
      \<lparr>disk_of = Some [],
       trace = trace s @ (if disk_of s \<noteq> None then [AppDirRemoved] else []) @ [AppDirCreated]\<rparr>)"
  by (simp add: writeFiles_def Let_def)

subsection \<open>Unrolling the two loops\<close>

lemma repair_loop_leave:
  "attempt \<le> MAX_REPAIR_ATTEMPTS \<Longrightarrow> attempt_body e attempt s = (Leave x, s1) \<Longrightarrow>
   repair_loop e attempt s = (x, s1)"
  by (subst repair_loop.simps) simp

lemma repair_loop_increment:
  "attempt \<le> MAX_REPAIR_ATTEMPTS \<Longrightarrow> attempt_body e attempt s = (Increment, s1) \<Longrightarrow>
   repair_loop e attempt s = repair_loop e (attempt + 1) s1"
  by (subst repair_loop.simps) simp

lemma repair_loop_condition_false:
  "\<not> attempt \<le> MAX_REPAIR_ATTEMPTS \<Longrightarrow> repair_loop e attempt s = (ConditionFalse, s)"
  by (subst repair_loop.simps) simp

lemma health_loop_exit:
  "i < 30 \<Longrightarrow> poll (tk i) h = (Some x, h1) \<Longrightarrow> health_loop tk i h = (x, h1)"
  by (subst health_loop.simps) simp

lemma health_loop_next:
  "i < 30 \<Longrightarrow> poll (tk i) h = (None, h1) \<Longrightarrow> health_loop tk i h = health_loop tk (i + 1) h1"
  by (subst health_loop.simps) simp

lemma health_loop_done:
  "\<not> i < 30 \<Longrightarrow> health_loop tk i h = (LoopLeft, h)"
  by (subst health_loop.simps) simp

subsection \<open>The Generator is called at most twice in the repair loop\<close>

lemma generations_append [simp]: "generations (a @ b) = generations a + generations b"
  by (simp add: generations_def)

lemma generations_simps [simp]:
  "generations [] = 0"
  "generations (Generated p c # tr) = Suc (generations tr)"
  "generations (Spawned a # tr) = generations tr"
  "generations (Removed q # tr) = generations tr"
  "generations (HashWritten q # tr) = generations tr"
  "generations (AppDirRemoved # tr) = generations tr"
  "generations (AppDirCreated # tr) = generations tr"
  "generations (FileWritten q # tr) = generations tr"
  by (simp_all add: generations_def)

lemma generations_install:
  "generations (trace (snd (runNpmInstallWithFallback e s))) = generations (trace s)"
  by (simp add: runNpmInstallWithFallback_def Let_def case_prod_beta write_hash_def)

lemma generations_compile:
  "generations (trace (snd (runCompileGate e s))) = generations (trace s)"
  by (simp add: runCompileGate_def Let_def case_prod_beta)

lemma generations_clean:
  "generations (trace (cleanGeneratedAppBuildState s)) = generations (trace s)"
  by simp

lemma generations_write_entries:
  "generations (trace (snd (write_entries e es t tr))) = generations tr"
proof (induction es arbitrary: t tr)
  case Nil
  show ?case by simp
next
  case (Cons a es)
  obtain filePath content where a: "a = (filePath, content)" by (cases a)
  show ?case
    unfolding a by (simp add: Cons.IH split: sum.splits prod.splits)
qed

lemma generations_writeFiles:
  "generations (trace (snd (writeFiles e fs s))) = generations (trace s)"
  by (simp add: writeFiles_def Let_def generations_write_entries split: option.splits)

lemma generations_maybeAutoRepair:
  "generations (trace (snd (maybeAutoRepair e c s))) \<le> Suc (generations (trace s))"
  by (auto simp: maybeAutoRepair_def Let_def generations_writeFiles
        split: option.splits gen_outcome.splits prod.splits sum.splits
        dest: arg_cong [where f = "\<lambda>r. generations (trace (snd r))"])


lemma generations_attempt_body:
  "generations (trace (snd (attempt_body e attempt s)))
     \<le> generations (trace s) + (if attempt = MAX_REPAIR_ATTEMPTS then 0 else 1)"
proof -
  have m: "generations (trace s2) \<le> Suc (generations (trace s1))"
    if "maybeAutoRepair e c s1 = (r, s2)" for c s1 r s2
    using generations_maybeAutoRepair [of e c s1] that by simp
  have i: "generations (trace s2) = generations (trace s1)"
    if "runNpmInstallWithFallback e s1 = (r, s2)" for s1 r s2
    using generations_install [of e s1] that by simp
  have g: "generations (trace s2) = generations (trace s1)"
    if "runCompileGate e s1 = (r, s2)" for s1 r s2
    using generations_compile [of e s1] that by simp
  show ?thesis
    unfolding attempt_body_def
    by (auto split: option.splits prod.splits sum.splits dest!: m i g)
qed

lemma repair_loop_generator_bound:
  "generations (trace (snd (repair_loop e attempt s)))
     \<le> generations (trace s) + (MAX_REPAIR_ATTEMPTS - attempt)"
proof (induction e attempt s rule: repair_loop.induct)
  case (1 e attempt s)
  show ?case
  proof (cases "attempt \<le> MAX_REPAIR_ATTEMPTS")
    case False
    then show ?thesis by (simp add: repair_loop_condition_false)
  next
    case True
    obtain f s1 where b: "attempt_body e attempt s = (f, s1)" by (cases "attempt_body e attempt s")
    have s1: "generations (trace s1)
        \<le> generations (trace s) + (if attempt = MAX_REPAIR_ATTEMPTS then 0 else 1)"
      using generations_attempt_body [of e attempt s] b by simp
    show ?thesis
    proof (cases f)
      case (Leave x)
      with True b s1 show ?thesis by (simp add: repair_loop_leave split: if_splits)
    next
      case Increment
      have "generations (trace (snd (repair_loop e (attempt + 1) s1)))
          \<le> generations (trace s1) + (MAX_REPAIR_ATTEMPTS - (attempt + 1))"
        using "1.IH" [OF True b [symmetric, unfolded Increment]] True b Increment by simp
      with True b Increment s1 show ?thesis
        by (simp add: repair_loop_increment split: if_splits)
    qed
  qed
qed

subsection \<open>Evaluation on concrete inputs\<close>

lemmas dirs = present_def within_def under_def is_directory_def existsSync_def
  readFile_or_empty_def rm_force_def writeFile_quiet_def

lemma corrupt_swc:
  "looksLikeCorruptInstall ''Error: Cannot find module '@swc/helpers' (require stack)''"
  by (simp add: looksLikeCorruptInstall_def signals_def)

lemma plain_type_error: "\<not> looksLikeCorruptInstall ''Type error: missing prop''"
  by (simp add: looksLikeCorruptInstall_def signals_def)

lemma hash_of_manifest:
  "readFile_or_empty ''package.json'' d = ''{}'' \<Longrightarrow> readFile_or_empty ''package-lock.json'' d = [] \<Longrightarrow>
   computeInstallHash d = ''1083067397''"
  by (simp add: computeInstallHash_def nl_def String_of.simps digit_char_def)

lemma healing_fields:
  "npm healing_env = cut_short_install" "holder healing_env = stamp"
  "truthy (prompt healing_env) = Some ''build a todo app''"
  "truthy (api_key healing_env) = Some ''sk-test''"
  "truthy (findForbiddenNextDocumentUsage healing_env d) = None"
  "generator healing_env k p c = GenReturns (Some [(''package.json'', ''{}'')])"
  by (simp_all add: healing_env_def fixed_env_def truthy_def)

lemma corrupt_chart:
  "looksLikeCorruptInstall ''Type error: Cannot find module 'chart.js' or its corresponding type declarations.''"
  by (simp add: looksLikeCorruptInstall_def signals_def)

lemma ready_at_once:
  "health_loop (\<lambda>i. \<lparr>out_chunks = [], err_chunks = [], probed = Responded (Some 200)\<rparr>) 0
     (initial_hstate tr) =
   (LoopLeft, \<lparr>consecutive500Errors = 0, serverReady = True, stdOutput = [], errorOutput = [],
       htrace = tr @ [Slept 1000, Probed]\<rparr>)"
  by (simp add: health_loop_exit poll_def deliver_def serverStatus_def initial_hstate_def
        MAX_CONSECUTIVE_500_def)

lemma npm_missing_module:
  "runNpm (fixed_env missing_module_build) args label s =
     (if args = [''run'', ''build'']
      then \<lparr>code = 1, outp = ''Type error: Cannot find module 'chart.js' or its corresponding type declarations.''\<rparr>
      else \<lparr>code = 0, outp = []\<rparr>,
      \<lparr>disk_of = disk_of s, trace = trace s @ [Spawned args]\<rparr>)"
  by (simp add: runNpm_def fixed_env_def missing_module_build_def resolve_npm_def)

lemma missing_module_install:
  "runNpmInstallWithFallback (fixed_env missing_module_build) \<lparr>disk_of = Some locked, trace = tr\<rparr> =
     (Inr (), \<lparr>disk_of = Some (hashmark # locked),
              trace = tr @ [Spawned [''install''], HashWritten ''1083067397'']\<rparr>)"
proof -
  have h: "computeInstallHash (Some locked) = ''1083067397''"
    by (rule hash_of_manifest) (simp_all add: locked_def dirs)
  have n: "\<not> existsSync ''node_modules'' (Some locked)"
    "\<not> existsSync ''package-lock.json'' (Some locked)"
    by (simp_all add: locked_def dirs)
  have w: "writeFile_quiet ''.install.hash'' ''1083067397'' (Some locked) = Some (hashmark # locked)"
    by (simp add: locked_def hashmark_def dirs)
  show ?thesis
    by (simp add: runNpmInstallWithFallback_def h n Let_def npm_missing_module write_hash_def w)
qed

lemma missing_module_attempt:
  "attempt_body (fixed_env missing_module_build) a
     \<lparr>disk_of = Some (hashmark # locked), trace = tr\<rparr> =
   (Increment,
    \<lparr>disk_of = Some (hashmark # locked),
     trace = tr @ [Spawned [''run'', ''build''],
       Removed ''.next'', Removed ''node_modules'', Removed ''package-lock.json'',
       Removed ''.install.hash'', Spawned [''install''], HashWritten ''1083067397'']\<rparr>)"
proof -
  have v: "truthy (findForbiddenNextDocumentUsage (fixed_env missing_module_build) d) = None" for d
    by (simp add: fixed_env_def truthy_def)
  have c: "cleanGeneratedAppBuildState \<lparr>disk_of = Some (hashmark # locked), trace = t\<rparr> =
     \<lparr>disk_of = Some locked,
      trace = t @ [Removed ''.next'', Removed ''node_modules'', Removed ''package-lock.json'',
                    Removed ''.install.hash'']\<rparr>" for t
    by (simp add: cleanGeneratedAppBuildState_def rm_step_def locked_def hashmark_def dirs)
  show ?thesis
    by (simp add: attempt_body_def v runCompileGate_def npm_missing_module corrupt_chart c
          missing_module_install)
qed

lemma install_first:
  "runNpmInstallWithFallback healing_env \<lparr>disk_of = Some locked, trace = []\<rparr> =
     (Inr (), \<lparr>disk_of = Some (hashmark # (''node_modules'', Dir) # locked),
              trace = [Spawned [''install''], HashWritten ''1083067397'']\<rparr>)"
proof -
  have h: "computeInstallHash (Some locked) = ''1083067397''"
    by (rule hash_of_manifest) (simp_all add: locked_def dirs)
  show ?thesis
    by (simp add: runNpmInstallWithFallback_def h Let_def runNpm_def healing_fields
          cut_short_install_def resolve_npm_def write_hash_def)
       (simp add: locked_def hashmark_def dirs trim_def)
qed


lemma install_later:
  assumes "tr \<noteq> []" and "t = locked \<or> t = [(''package.json'', File ''{}'')]"
  shows "runNpmInstallWithFallback healing_env \<lparr>disk_of = Some t, trace = tr\<rparr> =
     (Inr (), \<lparr>disk_of = Some (hashmark # helper # t),
              trace = tr @ [Spawned [''install''], HashWritten ''1083067397'']\<rparr>)"
proof -
  have h: "computeInstallHash (Some t) = ''1083067397''"
    using assms(2) by (intro hash_of_manifest) (auto simp: locked_def dirs)
  have n: "\<not> existsSync ''node_modules'' (Some t)" "\<not> existsSync ''package-lock.json'' (Some t)"
    using assms(2) by (auto simp: locked_def dirs)
  have w: "writeFile_quiet ''.install.hash'' ''1083067397'' (Some (helper # t))
      = Some (hashmark # helper # t)"
    using assms(2) by (auto simp: locked_def hashmark_def helper_def dirs)
  show ?thesis
    using assms(1)
    by (simp add: runNpmInstallWithFallback_def h n Let_def runNpm_def healing_fields
          cut_short_install_def resolve_npm_def write_hash_def w helper_def [symmetric])
qed

lemma clean_to_locked:
  assumes "t = hashmark # (''node_modules'', Dir) # locked"
  shows "cleanGeneratedAppBuildState \<lparr>disk_of = Some t, trace = tr\<rparr> =
     \<lparr>disk_of = Some locked,
      trace = tr @ [Removed ''.next'', Removed ''node_modules'', Removed ''package-lock.json'',
                    Removed ''.install.hash'']\<rparr>"
  using assms
  by (simp add: cleanGeneratedAppBuildState_def rm_step_def locked_def hashmark_def dirs)

lemma build_without_helper:
  assumes "\<not> existsSync ''node_modules/@swc/helpers/package.json'' (Some t)"
  shows "runCompileGate healing_env \<lparr>disk_of = Some t, trace = tr\<rparr> =
     (\<lparr>ok = False, build_output = ''Error: Cannot find module '@swc/helpers' (require stack)''\<rparr>,
      \<lparr>disk_of = Some t, trace = tr @ [Spawned [''run'', ''build'']]\<rparr>)"
  using assms
  by (simp add: runCompileGate_def runNpm_def healing_fields cut_short_install_def resolve_npm_def)

lemma build_with_helper:
  assumes "existsSync ''node_modules/@swc/helpers/package.json'' (Some t)"
  shows "runCompileGate healing_env \<lparr>disk_of = Some t, trace = tr\<rparr> =
     (\<lparr>ok = False, build_output = ''Type error: missing prop''\<rparr>,
      \<lparr>disk_of = Some t, trace = tr @ [Spawned [''run'', ''build'']]\<rparr>)"
  using assms
  by (simp add: runCompileGate_def runNpm_def healing_fields cut_short_install_def resolve_npm_def)

lemma healing_attempt_0:
  "attempt_body healing_env a
     \<lparr>disk_of = Some (hashmark # (''node_modules'', Dir) # locked), trace = tr\<rparr> =
   (Increment,
    \<lparr>disk_of = Some (hashmark # helper # locked),
     trace = tr @ [Spawned [''run'', ''build''],
       Removed ''.next'', Removed ''node_modules'', Removed ''package-lock.json'',
       Removed ''.install.hash'', Spawned [''install''], HashWritten ''1083067397'']\<rparr>)"
proof -
  have b: "\<not> existsSync ''node_modules/@swc/helpers/package.json''
      (Some (hashmark # (''node_modules'', Dir) # locked))"
    by (simp add: hashmark_def locked_def dirs)
  show ?thesis
    by (simp add: attempt_body_def healing_fields build_without_helper [OF b] corrupt_swc
          clean_to_locked install_later)
qed

lemma repair_writes_manifest:
  "maybeAutoRepair healing_env c \<lparr>disk_of = Some t, trace = tr\<rparr> =
     (Inr True,
      \<lparr>disk_of = Some [(''package.json'', File ''{}'')],
       trace = tr @ [Generated ''build a todo app'' c, AppDirRemoved, AppDirCreated,
                     FileWritten ''package.json'']\<rparr>)"
  by (simp add: maybeAutoRepair_def healing_fields writeFiles_def Let_def dirs)

lemma healing_attempt_1:
  "attempt_body healing_env (Suc 0) \<lparr>disk_of = Some (hashmark # helper # locked), trace = tr\<rparr> =
   (Increment,
    \<lparr>disk_of = Some [hashmark, helper, (''package.json'', File ''{}'')],
     trace = tr @ [Spawned [''run'', ''build''],
       Generated ''build a todo app''
         (''next build failed (attempt 2/2). Here is the full output:'' @ nl @ nl
          @ ''Type error: missing prop''),
       AppDirRemoved, AppDirCreated, FileWritten ''package.json'',
       Spawned [''install''], HashWritten ''1083067397'']\<rparr>)"
proof -
  have b: "existsSync ''node_modules/@swc/helpers/package.json'' (Some (hashmark # helper # locked))"
    by (simp add: hashmark_def helper_def locked_def dirs)
  have c: "compile_context (Suc 0) out = ''next build failed (attempt 2/2). Here is the full output:''
      @ nl @ nl @ out" for out
    by (simp add: compile_context_def MAX_REPAIR_ATTEMPTS_def String_of.simps digit_char_def)
  show ?thesis
    by (simp add: attempt_body_def healing_fields build_with_helper [OF b] plain_type_error
          MAX_REPAIR_ATTEMPTS_def c repair_writes_manifest install_later)
qed

lemma healing_attempt_2:
  "attempt_body healing_env (Suc (Suc 0))
     \<lparr>disk_of = Some [hashmark, helper, (''package.json'', File ''{}'')], trace = tr\<rparr> =
   (Leave (Returns (resp_compile_failed ''Type error: missing prop'')),
    \<lparr>disk_of = Some [hashmark, helper, (''package.json'', File ''{}'')],
     trace = tr @ [Spawned [''run'', ''build'']]\<rparr>)"
proof -
  have b: "existsSync ''node_modules/@swc/helpers/package.json''
      (Some [hashmark, helper, (''package.json'', File ''{}'')])"
    by (simp add: hashmark_def helper_def dirs)
  show ?thesis
    by (simp add: attempt_body_def healing_fields build_with_helper [OF b] plain_type_error
          MAX_REPAIR_ATTEMPTS_def numeral_2_eq_2)
qed

lemma type_error_gate:
  "runCompileGate (repairing_env type_error_build g) \<lparr>disk_of = dk, trace = tr\<rparr> =
     (\<lparr>ok = False, build_output = ''Type error: missing prop''\<rparr>,
      \<lparr>disk_of = dk, trace = tr @ [Spawned [''run'', ''build'']]\<rparr>)"
  by (simp add: runCompileGate_def runNpm_def repairing_env_def fixed_env_def
        type_error_build_def resolve_npm_def)

subsection \<open>The readiness loop\<close>

lemma deliver_fields:
  "htrace (deliver t h) = htrace h"
  "consecutive500Errors (deliver t h) = consecutive500Errors h"
  "serverReady (deliver t h) = (serverReady h \<or> marker_seen t)"
proof -
  have o: "htrace (foldl on_stdout h cs) = htrace h
      \<and> consecutive500Errors (foldl on_stdout h cs) = consecutive500Errors h
      \<and> serverReady (foldl on_stdout h cs) = (serverReady h \<or> list_ex stdout_marker cs)" for h cs
    by (induction cs arbitrary: h) (auto simp: on_stdout_def)
  have e: "htrace (foldl on_stderr h cs) = htrace h
      \<and> consecutive500Errors (foldl on_stderr h cs) = consecutive500Errors h
      \<and> serverReady (foldl on_stderr h cs) = (serverReady h \<or> list_ex stderr_marker cs)" for h cs
    by (induction cs arbitrary: h) (auto simp: on_stderr_def)
  show "htrace (deliver t h) = htrace h"
    "consecutive500Errors (deliver t h) = consecutive500Errors h"
    "serverReady (deliver t h) = (serverReady h \<or> marker_seen t)"
    by (simp_all add: deliver_def o e marker_seen_def)
qed

lemma ready_not_500: "answers_ready t \<Longrightarrow> \<not> answers500 t"
  by (auto simp: answers_ready_def answers500_def serverStatus_def Let_def split: probe.splits)

lemma poll_htrace: "htrace (snd (poll t h)) = htrace h @ [Slept 1000, Probed]"
  by (simp add: poll_def Let_def case_prod_beta deliver_fields)

lemma poll_ready:
  assumes "answers_ready t"
  shows "fst (poll t h) = Some LoopLeft" and "serverReady (snd (poll t h))"
    and "consecutive500Errors (snd (poll t h)) = 0"
  using assms ready_not_500 [OF assms]
  by (simp_all add: poll_def Let_def case_prod_beta answers_ready_def answers500_def)

lemma poll_500:
  assumes "answers500 t"
  shows "fst (poll t h) =
           (if MAX_CONSECUTIVE_500 \<le> consecutive500Errors h + 1 then Some Returned500 else None)"
    and "consecutive500Errors (snd (poll t h)) = consecutive500Errors h + 1"
    and "serverReady (snd (poll t h)) = (serverReady h \<or> marker_seen t)"
  using assms ready_not_500 [of t]
  by (auto simp: poll_def Let_def case_prod_beta answers_ready_def answers500_def deliver_fields)

lemma poll_other:
  assumes "\<not> answers500 t" and "\<not> answers_ready t"
  shows "fst (poll t h) = None" and "consecutive500Errors (snd (poll t h)) = 0"
    and "serverReady (snd (poll t h)) = (serverReady h \<or> marker_seen t)"
  using assms
  by (simp_all add: poll_def Let_def case_prod_beta answers_ready_def answers500_def deliver_fields)

lemma poll_reset: "\<not> answers500 t \<Longrightarrow> consecutive500Errors (snd (poll t h)) = 0"
  by (simp add: poll_def Let_def case_prod_beta answers500_def)

lemma health_loop_unfold:
  "i < 30 \<Longrightarrow> health_loop tk i h =
     (case fst (poll (tk i) h) of
        Some x \<Rightarrow> (x, snd (poll (tk i) h))
      | None \<Rightarrow> health_loop tk (i + 1) (snd (poll (tk i) h)))"
  by (subst health_loop.simps) (simp add: case_prod_beta split: option.splits)

lemma health_loop_polls:
  "\<exists>n. n \<le> 30 - i \<and>
     htrace (snd (health_loop tk i h)) = htrace h @ concat (replicate n [Slept 1000, Probed])"
proof (induction tk i h rule: health_loop.induct)
  case (1 tk i h)
  show ?case
  proof (cases "i < 30")
    case False
    then have "health_loop tk i h = (LoopLeft, h)" by (simp add: health_loop_done)
    then show ?thesis by (intro exI [of _ 0]) simp
  next
    case True
    show ?thesis
    proof (cases "fst (poll (tk i) h)")
      case (Some x)
      with True have "health_loop tk i h = (x, snd (poll (tk i) h))"
        by (simp add: health_loop_unfold)
      with True show ?thesis
        by (intro exI [of _ 1]) (simp add: poll_htrace)
    next
      case None
      then have p: "poll (tk i) h = (None, snd (poll (tk i) h))" by (simp add: prod_eq_iff)
      from "1.IH" [OF True p [symmetric] refl] obtain n where
        n: "n \<le> 30 - (i + 1)"
        "htrace (snd (health_loop tk (i + 1) (snd (poll (tk i) h)))) =
           htrace (snd (poll (tk i) h)) @ concat (replicate n [Slept 1000, Probed])"
        by blast
      from True None have "health_loop tk i h = health_loop tk (i + 1) (snd (poll (tk i) h))"
        by (simp add: health_loop_unfold)
      with n True show ?thesis
        by (intro exI [of _ "Suc n"]) (simp add: poll_htrace)
    qed
  qed
qed

lemma run_of_500:
  "0 < m \<Longrightarrow> i + m \<le> 30 \<Longrightarrow> (\<And>j. i \<le> j \<Longrightarrow> j < i + m \<Longrightarrow> answers500 (tk j)) \<Longrightarrow>
   MAX_CONSECUTIVE_500 \<le> consecutive500Errors h + m \<Longrightarrow>
   fst (health_loop tk i h) = Returned500"
proof (induction m arbitrary: i h)
  case 0
  then show ?case by simp
next
  case (Suc m)
  have i: "i < 30" using Suc.prems by simp
  have a: "answers500 (tk i)" using Suc.prems by simp
  show ?case
  proof (cases "MAX_CONSECUTIVE_500 \<le> consecutive500Errors h + 1")
    case True
    with i a show ?thesis by (simp add: health_loop_unfold poll_500)
  next
    case False
    with Suc.prems have m: "0 < m" by simp
    have "fst (health_loop tk (i + 1) (snd (poll (tk i) h))) = Returned500"
      using Suc.prems m by (intro Suc.IH) (simp_all add: poll_500 [OF a])
    with False i a show ?thesis by (simp add: health_loop_unfold poll_500)
  qed
qed

lemma five_500_yield_failure:
  "i \<le> k \<Longrightarrow> k + 5 \<le> 30 \<Longrightarrow> (\<And>j. i \<le> j \<Longrightarrow> j < k \<Longrightarrow> \<not> answers_ready (tk j)) \<Longrightarrow>
   (\<And>j. k \<le> j \<Longrightarrow> j < k + 5 \<Longrightarrow> answers500 (tk j)) \<Longrightarrow>
   fst (health_loop tk i h) = Returned500"
proof (induction "k - i" arbitrary: i h)
  case 0
  then have "i = k" by simp
  with 0 show ?case
    by (intro run_of_500 [where m = 5]) (simp_all add: MAX_CONSECUTIVE_500_def)
next
  case (Suc n)
  then have i: "i < 30" "i < k" by simp_all
  have nr: "\<not> answers_ready (tk i)" using Suc.prems i by simp
  have ih: "fst (health_loop tk (i + 1) h') = Returned500" for h'
    using Suc.prems Suc.hyps i by (intro Suc.hyps(1)) simp_all
  show ?case
  proof (cases "answers500 (tk i)")
    case True
    with i ih show ?thesis by (simp add: health_loop_unfold poll_500)
  next
    case False
    with i ih nr show ?thesis by (simp add: health_loop_unfold poll_other)
  qed
qed

lemma exhausted:
  assumes no_run: "\<And>k. k + 5 \<le> 30 \<Longrightarrow> \<exists>j. k \<le> j \<and> j < k + 5 \<and> \<not> answers500 (tk j)"
  shows "consecutive500Errors h \<le> i \<Longrightarrow>
     (\<And>j. i - consecutive500Errors h \<le> j \<Longrightarrow> j < i \<Longrightarrow> answers500 (tk j)) \<Longrightarrow>
     (\<And>j. i \<le> j \<Longrightarrow> j < 30 \<Longrightarrow> \<not> answers_ready (tk j)) \<Longrightarrow>
     fst (health_loop tk i h) = LoopLeft
     \<and> serverReady (snd (health_loop tk i h))
         = (serverReady h \<or> (\<exists>j. i \<le> j \<and> j < 30 \<and> marker_seen (tk j)))"
proof (induction "30 - i" arbitrary: i h)
  case 0
  then have "\<not> i < 30" by simp
  then show ?case by (auto simp: health_loop_done)
next
  case (Suc n)
  then have i: "i < 30" by simp
  have nr: "\<not> answers_ready (tk i)" using Suc.prems i by simp
  let ?h = "snd (poll (tk i) h)"
  have ex: "(\<exists>j. i \<le> j \<and> j < 30 \<and> marker_seen (tk j))
      = (marker_seen (tk i) \<or> (\<exists>j. i + 1 \<le> j \<and> j < 30 \<and> marker_seen (tk j)))"
  proof
    assume "\<exists>j. i \<le> j \<and> j < 30 \<and> marker_seen (tk j)"
    then obtain j where j: "i \<le> j" "j < 30" "marker_seen (tk j)" by blast
    show "marker_seen (tk i) \<or> (\<exists>j. i + 1 \<le> j \<and> j < 30 \<and> marker_seen (tk j))"
    proof (cases "j = i")
      case True with j show ?thesis by simp
    next
      case False
      with j have "i + 1 \<le> j" by simp
      with j show ?thesis by blast
    qed
  next
    assume "marker_seen (tk i) \<or> (\<exists>j. i + 1 \<le> j \<and> j < 30 \<and> marker_seen (tk j))"
    then show "\<exists>j. i \<le> j \<and> j < 30 \<and> marker_seen (tk j)"
    proof
      assume "marker_seen (tk i)"
      with i show ?thesis by blast
    next
      assume "\<exists>j. i + 1 \<le> j \<and> j < 30 \<and> marker_seen (tk j)"
      then obtain j where "i + 1 \<le> j" "j < 30" "marker_seen (tk j)" by blast
      then have "i \<le> j \<and> j < 30 \<and> marker_seen (tk j)" by simp
      then show ?thesis by blast
    qed
  qed
  show ?case
  proof (cases "answers500 (tk i)")
    case False
    have "fst (health_loop tk (i + 1) ?h) = LoopLeft
      \<and> serverReady (snd (health_loop tk (i + 1) ?h))
         = (serverReady ?h \<or> (\<exists>j. i + 1 \<le> j \<and> j < 30 \<and> marker_seen (tk j)))"
      using Suc.hyps(2) Suc.prems(3) False nr
      by (intro Suc.hyps(1)) (simp_all add: poll_other)
    with False nr i ex show ?thesis
      by (simp add: health_loop_unfold poll_other)
  next
    case True
    have below: "\<not> MAX_CONSECUTIVE_500 \<le> consecutive500Errors h + 1"
    proof
      assume c: "MAX_CONSECUTIVE_500 \<le> consecutive500Errors h + 1"
      then have k: "(i - 4) + 5 \<le> 30" "i - 4 + 4 = i"
        using i Suc.prems(1) by (simp_all add: MAX_CONSECUTIVE_500_def)
      from no_run [OF k(1)] obtain j where j: "i - 4 \<le> j" "j < i - 4 + 5" "\<not> answers500 (tk j)"
        by blast
      have "answers500 (tk j)"
      proof (cases "j = i")
        case True
        with \<open>answers500 (tk i)\<close> show ?thesis by simp
      next
        case False
        with j k c Suc.prems(1) show ?thesis
          by (intro Suc.prems(2)) (simp_all add: MAX_CONSECUTIVE_500_def)
      qed
      with j show False by simp
    qed
    have "fst (health_loop tk (i + 1) ?h) = LoopLeft
      \<and> serverReady (snd (health_loop tk (i + 1) ?h))
         = (serverReady ?h \<or> (\<exists>j. i + 1 \<le> j \<and> j < 30 \<and> marker_seen (tk j)))"
    proof (intro Suc.hyps(1))
      show "n = 30 - (i + 1)" using Suc.hyps(2) by simp
      show "consecutive500Errors ?h \<le> i + 1" using Suc.prems(1) by (simp add: poll_500 [OF True])
      show "answers500 (tk j)" if "i + 1 - consecutive500Errors ?h \<le> j" "j < i + 1" for j
      proof (cases "j = i")
        case True with \<open>answers500 (tk i)\<close> show ?thesis by simp
      next
        case False
        with that show ?thesis by (intro Suc.prems(2)) (simp_all add: poll_500 [OF True])
      qed
      show "\<not> answers_ready (tk j)" if "i + 1 \<le> j" "j < 30" for j
        using that by (intro Suc.prems(3)) simp_all
    qed
    with True below i ex show ?thesis
      by (simp add: health_loop_unfold poll_500)
  qed
qed

lemma not_ready_banner: "\<not> answers_ready (banner_only j)" "\<not> answers500 (banner_only j)"
  by (simp_all add: answers_ready_def answers500_def banner_only_def serverStatus_def)

lemma marker_banner: "marker_seen (banner_only 0)"
  by (simp add: marker_seen_def banner_only_def stdout_marker_def)

section \<open>The claims\<close>

subsection \<open>C2: the strict compile gate\<close>

text \<open>
  C2. \<^verbatim>\<open>runCompileGate\<close> reports success exactly when the build subprocess closes with
  exit status zero. Whatever the captured output is, a non-zero status, a \<^verbatim>\<open>null\<close>
  status (the process was killed by a signal) and a failure to spawn are all reported
  as failure.
\<close>

theorem compile_gate_strict:
  "ok (fst (runCompileGate e s)) =
     (\<exists>out. fst (npm e (length (trace s)) [''run'', ''build''] (disk_of s)) = Closed (Some 0) out)"
  by (auto simp: runCompileGate_def runNpm_def resolve_npm_def Let_def
           split: prod.splits proc_event.splits option.splits)

text \<open>Exit status 1 with the output \<open>success\<close> is a failure.\<close>

theorem compile_gate_strict_witness:
  "\<not> ok (fst (runCompileGate (fixed_env (\<lambda>args d. (Closed (Some 1) ''success'', d)))
                \<lparr>disk_of = Some [], trace = []\<rparr>))"
  using compile_gate_strict [of "fixed_env (\<lambda>args d. (Closed (Some 1) ''success'', d))"
          "\<lparr>disk_of = Some [], trace = []\<rparr>"]
  by (simp add: fixed_env_def)

subsection \<open>C4: the install is skipped on an unchanged fingerprint\<close>

text \<open>
  C4. If the content of \<^verbatim>\<open>.install.hash\<close> equals the fingerprint computed from the
  current \<^verbatim>\<open>package.json\<close> and \<^verbatim>\<open>package-lock.json\<close>, and \<^verbatim>\<open>node_modules\<close> exists, then
  \<^verbatim>\<open>runNpmInstallWithFallback\<close> returns normally and leaves the state as it was: the
  trace is unchanged, so no subprocess was started, and so is the directory.
\<close>

theorem install_skip:
  assumes "readFile_or_empty ''.install.hash'' (disk_of s) = computeInstallHash (disk_of s)"
    and "existsSync ''node_modules'' (disk_of s)"
  shows "runNpmInstallWithFallback e s = (Inr (), s)"
  using assms by (simp add: runNpmInstallWithFallback_def Let_def trim_computeInstallHash)

text \<open>With an \<^verbatim>\<open>npm\<close> that would fail, the installed directory is still accepted.\<close>

theorem install_skip_witness:
  "runNpmInstallWithFallback (fixed_env (\<lambda>args d. (Closed (Some 1) [], d)))
     \<lparr>disk_of = installed_disk, trace = []\<rparr> = (Inr (), \<lparr>disk_of = installed_disk, trace = []\<rparr>)"
proof -
  have a: "readFile_or_empty ''.install.hash'' installed_disk = computeInstallHash installed_disk"
    by (simp add: hash_installed_disk) (simp add: installed_disk_def readFile_or_empty_def present_def within_def under_def is_directory_def)
  have b: "existsSync ''node_modules'' installed_disk"
    by (simp add: installed_disk_def existsSync_def present_def within_def under_def is_directory_def)
  show ?thesis
    using install_skip [of "\<lparr>disk_of = installed_disk, trace = []\<rparr>"
            "fixed_env (\<lambda>args d. (Closed (Some 1) [], d))"] a b
    by simp
qed

subsection \<open>C5: one retry after a corrupt install\<close>



subsection \<open>C9: what the compile gate does before the build\<close>

text \<open>
  C9, as the code has it. Every invocation of \<^verbatim>\<open>runCompileGate\<close> runs \<^verbatim>\<open>npm run build\<close> to
  completion on the directory as it is, and returns its combined output, with \<open>ok\<close> set
  when the exit code is zero. This run is its only effect: no build-output artifact is
  cleared first.
\<close>

theorem compile_gate_no_preclean:
  "runCompileGate e s =
     (let r = npm e (length (trace s)) [''run'', ''build''] (disk_of s);
          res = resolve_npm ''npm run build'' (fst r)
      in (\<lparr>ok = (code res = 0), build_output = outp res\<rparr>,
          \<lparr>disk_of = snd r, trace = trace s @ [Spawned [''run'', ''build'']]\<rparr>))"
  by (simp add: runCompileGate_def runNpm_def Let_def case_prod_beta)

theorem compile_gate_no_preclean_witness:
  "runCompileGate (fixed_env stale_sensitive) \<lparr>disk_of = stale_disk, trace = []\<rparr> =
     (\<lparr>ok = False, build_output = ''stale build output''\<rparr>,
      \<lparr>disk_of = stale_disk, trace = [Spawned [''run'', ''build'']]\<rparr>)"
  using compile_gate_no_preclean
    [of "fixed_env stale_sensitive" "\<lparr>disk_of = stale_disk, trace = []\<rparr>"]
  by (simp add: Let_def fixed_env_def stale_sensitive_def stale_disk_def resolve_npm_def dirs)

text \<open>C9 as stated fails: with a stale \<^verbatim>\<open>.next\<close> in the directory, the gate starts the
  build without removing it; the build sees it, and it is still there afterwards.\<close>

theorem compile_gate_preclean_counterexample:
  "trace (snd (runCompileGate (fixed_env stale_sensitive) \<lparr>disk_of = stale_disk, trace = []\<rparr>))
     = [Spawned [''run'', ''build'']]
   \<and> existsSync ''.next'' stale_disk
   \<and> existsSync ''.next''
        (disk_of (snd (runCompileGate (fixed_env stale_sensitive)
                        \<lparr>disk_of = stale_disk, trace = []\<rparr>)))
   \<and> build_output (fst (runCompileGate (fixed_env stale_sensitive)
                        \<lparr>disk_of = stale_disk, trace = []\<rparr>)) = ''stale build output''"
  by (simp add: runCompileGate_def runNpm_def fixed_env_def stale_sensitive_def stale_disk_def
        resolve_npm_def dirs)

subsection \<open>C1: single flight\<close>

text \<open>
  C1. The property: at most one request is past the lock at any time, and a request
  that is refused leaves the marker of the running request alone. It fails on the code.
  Three requests on one directory: request 0 creates the marker and is building;
  request 1 is refused, and its \<^verbatim>\<open>finally\<close> block removes the marker of request 0;
  request 2 then creates the marker. Requests 0 and 2 are both past the lock.
\<close>

theorem lock_removed_by_refused_request:
  "map_option phases
     (schedule [Open 0 ''101 t0'', Open 1 ''101 t1'', Finally 1, Open 2 ''101 t2'']
        \<lparr>shared = fresh_disk, phases = [Pending, Pending, Pending]\<rparr>)
     = Some [Building, Done, Building]
   \<and> map_option past_lock
     (schedule [Open 0 ''101 t0'', Open 1 ''101 t1'', Finally 1, Open 2 ''101 t2'']
        \<lparr>shared = fresh_disk, phases = [Pending, Pending, Pending]\<rparr>) = Some 2"
  by (simp add: fresh_disk_def open_wx_def lockPath_def rm_force_def past_lock_def
        present_def within_def under_def is_directory_def)

subsection \<open>C10: a missing directory is reported as contention\<close>

text \<open>
  C10. When the target directory does not exist, the creation of the marker fails with
  \<open>ENOENT\<close> and the response is the 409 one. No request, whatever the environment and
  the directory, is answered with status 404: the branch that returns it is dead.
\<close>

theorem missing_directory_is_busy:
  "open_wx lockPath (holder e) None = Inl ENOENT
   \<and> fst (POST e None) = resp_busy
   \<and> status resp_busy = 409
   \<and> status resp_not_found = 404
   \<and> status (fst (POST e d)) \<noteq> 404"
  using status_POST [of e d]
  by (auto simp: open_wx_def POST_def POST_try_def resp_busy_def resp_not_found_def)

theorem missing_directory_is_busy_witness:
  "status (fst (POST (fixed_env tar_error) None)) = 409
   \<and> status (fst (POST (fixed_env tar_error) None)) \<noteq> 404"
  using missing_directory_is_busy [of "fixed_env tar_error" None]
  by simp

subsection \<open>C8: the Generator's response is written unchecked\<close>

text \<open>
  C8, as the code has it. Nothing validates the Generator's response. When a prompt and
  a key are there, \<^verbatim>\<open>maybeAutoRepair\<close> hands the \<^verbatim>\<open>files\<close> member to \<^verbatim>\<open>writeFiles\<close>, which
  removes and recreates the target directory before it reads the mapping.
  \<^item> A missing mapping makes \<^verbatim>\<open>writeFiles\<close> throw once the directory is empty. In the
    repair after a validator finding and in the repair after a failed build alike, the
    throw leaves the repair loop, so nothing is retried; and a throw that leaves the
    repair loop is answered with status 500 and the error's message.
  \<^item> An empty mapping is accepted: \<^verbatim>\<open>maybeAutoRepair\<close> returns \<^verbatim>\<open>true\<close>, the directory is
    left empty, and in both repairs, after a reinstall that succeeds, the loop goes on
    at the next attempt index.
\<close>

theorem generator_response_not_validated:
  fixes e :: env and s :: st
  defines "built \<equiv> runCompileGate e s"
  defines "cctx \<equiv> (\<lambda>attempt. compile_context attempt (build_output (fst (runCompileGate e s))))"
  assumes p: "truthy (prompt e) = Some p" and k: "truthy (api_key e) = Some k"
  shows "(generator e (length (trace s)) p ctx = GenReturns None \<longrightarrow>
           maybeAutoRepair e ctx s =
             (Inl (Error ''Cannot convert undefined or null to object''), wiped s p ctx))
       \<and> (generator e (length (trace s)) p ctx = GenReturns (Some []) \<longrightarrow>
           maybeAutoRepair e ctx s = (Inr True, wiped s p ctx))
       \<and> (attempt < MAX_REPAIR_ATTEMPTS \<and>
          truthy (findForbiddenNextDocumentUsage e (disk_of s)) = Some f \<and>
          generator e (length (trace s)) p (forbidden_context f) = GenReturns None \<longrightarrow>
           repair_loop e attempt s =
             (Throws (Error ''Cannot convert undefined or null to object''),
              wiped s p (forbidden_context f)))
       \<and> (attempt < MAX_REPAIR_ATTEMPTS \<and>
          truthy (findForbiddenNextDocumentUsage e (disk_of s)) = Some f \<and>
          generator e (length (trace s)) p (forbidden_context f) = GenReturns (Some []) \<and>
          runNpmInstallWithFallback e (wiped s p (forbidden_context f)) = (Inr (), s') \<longrightarrow>
           repair_loop e attempt s = repair_loop e (attempt + 1) s')
       \<and> (attempt < MAX_REPAIR_ATTEMPTS \<and>
          truthy (findForbiddenNextDocumentUsage e (disk_of s)) = None \<and>
          \<not> ok (fst built) \<and> \<not> looksLikeCorruptInstall (build_output (fst built)) \<and>
          generator e (length (trace (snd built))) p (cctx attempt) = GenReturns None \<longrightarrow>
           repair_loop e attempt s =
             (Throws (Error ''Cannot convert undefined or null to object''),
              wiped (snd built) p (cctx attempt)))
       \<and> (attempt < MAX_REPAIR_ATTEMPTS \<and>
          truthy (findForbiddenNextDocumentUsage e (disk_of s)) = None \<and>
          \<not> ok (fst built) \<and> \<not> looksLikeCorruptInstall (build_output (fst built)) \<and>
          generator e (length (trace (snd built))) p (cctx attempt) = GenReturns (Some []) \<and>
          runNpmInstallWithFallback e (wiped (snd built) p (cctx attempt)) = (Inr (), s') \<longrightarrow>
           repair_loop e attempt s = repair_loop e (attempt + 1) s')
       \<and> (open_wx lockPath (holder e) d = Inr (disk_of s0) \<and> trace s0 = [] \<and>
          runNpmInstallWithFallback e s0 = (Inr (), s) \<and>
          repair_loop e 0 s = (Throws (Error m), s2) \<longrightarrow>
           fst (POST e d) = failure 500 m)"
proof -
  have a: "maybeAutoRepair e c s1 =
             (Inl (Error ''Cannot convert undefined or null to object''), wiped s1 p c)"
    if "generator e (length (trace s1)) p c = GenReturns None" for c s1
    using that p k by (simp add: maybeAutoRepair_def writeFiles_missing wiped_def)
  have b: "maybeAutoRepair e c s1 = (Inr True, wiped s1 p c)"
    if "generator e (length (trace s1)) p c = GenReturns (Some [])" for c s1
    using that p k by (simp add: maybeAutoRepair_def writeFiles_empty wiped_def)
  have c: "repair_loop e attempt s =
             (Throws (Error ''Cannot convert undefined or null to object''),
              wiped s p (forbidden_context f))"
    if "attempt < MAX_REPAIR_ATTEMPTS"
      "truthy (findForbiddenNextDocumentUsage e (disk_of s)) = Some f"
      "generator e (length (trace s)) p (forbidden_context f) = GenReturns None"
    using that a [of s "forbidden_context f"]
    by (subst repair_loop.simps) (simp add: attempt_body_def)
  have d: "repair_loop e attempt s = repair_loop e (attempt + 1) s'"
    if "attempt < MAX_REPAIR_ATTEMPTS"
      "truthy (findForbiddenNextDocumentUsage e (disk_of s)) = Some f"
      "generator e (length (trace s)) p (forbidden_context f) = GenReturns (Some [])"
      "runNpmInstallWithFallback e (wiped s p (forbidden_context f)) = (Inr (), s')"
    using that b [of s "forbidden_context f"]
    by (subst repair_loop.simps) (simp add: attempt_body_def)
  have c': "repair_loop e attempt s =
             (Throws (Error ''Cannot convert undefined or null to object''),
              wiped (snd built) p (cctx attempt))"
    if "attempt < MAX_REPAIR_ATTEMPTS"
      "truthy (findForbiddenNextDocumentUsage e (disk_of s)) = None"
      "\<not> ok (fst built)" "\<not> looksLikeCorruptInstall (build_output (fst built))"
      "generator e (length (trace (snd built))) p (cctx attempt) = GenReturns None"
    using that a [of "snd built" "cctx attempt"]
    by (subst repair_loop.simps) (simp add: attempt_body_def case_prod_beta built_def cctx_def)
  have d': "repair_loop e attempt s = repair_loop e (attempt + 1) s'"
    if "attempt < MAX_REPAIR_ATTEMPTS"
      "truthy (findForbiddenNextDocumentUsage e (disk_of s)) = None"
      "\<not> ok (fst built)" "\<not> looksLikeCorruptInstall (build_output (fst built))"
      "generator e (length (trace (snd built))) p (cctx attempt) = GenReturns (Some [])"
      "runNpmInstallWithFallback e (wiped (snd built) p (cctx attempt)) = (Inr (), s')"
    using that b [of "snd built" "cctx attempt"]
    by (subst repair_loop.simps) (simp add: attempt_body_def case_prod_beta built_def cctx_def)
  have f: "fst (POST e d) = failure 500 m"
    if "open_wx lockPath (holder e) d = Inr (disk_of s0)" "trace s0 = []"
      "runNpmInstallWithFallback e s0 = (Inr (), s)" "repair_loop e 0 s = (Throws (Error m), s2)"
  proof -
    have s0: "\<lparr>disk_of = disk_of s0, trace = []\<rparr> = s0" using that(2) by simp
    have "disk_of s0 \<noteq> None" using that(1) by (rule open_wx_creates)
    then show ?thesis
      using that
      by (auto simp: POST_def POST_try_def pipeline_def s0 resp_fatal_def case_prod_beta)
  qed
  from a [of s ctx] b [of s ctx] c d c' d' f show ?thesis by blast
qed

text \<open>A missing mapping: in \<^verbatim>\<open>maybeAutoRepair\<close>, after a validator finding, and after a
  failed build.\<close>

theorem generator_response_not_validated_witness:
  "maybeAutoRepair (repairing_env tar_error (GenReturns None)) ''next build failed''
     \<lparr>disk_of = stale_disk, trace = []\<rparr> =
     (Inl (Error ''Cannot convert undefined or null to object''),
      \<lparr>disk_of = Some [],
       trace = [Generated ''build a todo app'' ''next build failed'', AppDirRemoved,
                AppDirCreated]\<rparr>)
   \<and> repair_loop
       ((repairing_env tar_error (GenReturns None))
          \<lparr>findForbiddenNextDocumentUsage := (\<lambda>d. Some html_finding)\<rparr>)
       0 \<lparr>disk_of = stale_disk, trace = []\<rparr> =
     (Throws (Error ''Cannot convert undefined or null to object''),
      \<lparr>disk_of = Some [],
       trace = [Generated ''build a todo app'' (forbidden_context html_finding), AppDirRemoved,
                AppDirCreated]\<rparr>)
   \<and> repair_loop (repairing_env type_error_build (GenReturns None)) 0
       \<lparr>disk_of = stale_disk, trace = []\<rparr> =
     (Throws (Error ''Cannot convert undefined or null to object''),
      \<lparr>disk_of = Some [],
       trace = [Spawned [''run'', ''build''],
                Generated ''build a todo app'' (compile_context 0 ''Type error: missing prop''),
                AppDirRemoved, AppDirCreated]\<rparr>)"
  using generator_response_not_validated
    [where e = "repairing_env tar_error (GenReturns None)" and p = "''build a todo app''"
       and k = "''sk-test''" and s = "\<lparr>disk_of = stale_disk, trace = []\<rparr>"
       and ctx = "''next build failed''"]
    generator_response_not_validated
    [where e = "(repairing_env tar_error (GenReturns None))
          \<lparr>findForbiddenNextDocumentUsage := (\<lambda>d. Some html_finding)\<rparr>"
       and p = "''build a todo app''" and k = "''sk-test''"
       and s = "\<lparr>disk_of = stale_disk, trace = []\<rparr>" and attempt = 0 and f = html_finding]
    generator_response_not_validated
    [where e = "repairing_env type_error_build (GenReturns None)"
       and p = "''build a todo app''" and k = "''sk-test''"
       and s = "\<lparr>disk_of = stale_disk, trace = []\<rparr>" and attempt = 0]
  by (simp add: type_error_gate plain_type_error)
     (simp add: repairing_env_def fixed_env_def truthy_def wiped_def stale_disk_def
        MAX_REPAIR_ATTEMPTS_def html_finding_def)

text \<open>C8 as stated fails: an empty mapping is not an error, and the directory, which
  held a manifest, is emptied.\<close>

theorem empty_mapping_accepted_counterexample:
  "maybeAutoRepair (repairing_env tar_error (GenReturns (Some []))) ''next build failed''
     \<lparr>disk_of = stale_disk, trace = []\<rparr> =
     (Inr True,
      \<lparr>disk_of = Some [],
       trace = [Generated ''build a todo app'' ''next build failed'', AppDirRemoved,
                AppDirCreated]\<rparr>)
   \<and> existsSync ''package.json'' stale_disk
   \<and> \<not> existsSync ''package.json'' (Some [])"
  by (simp add: maybeAutoRepair_def repairing_env_def fixed_env_def truthy_def writeFiles_empty
        stale_disk_def dirs)

subsection \<open>C6: the retry after an environment fault\<close>

text \<open>
  C6, as the code has it. Below the last attempt index, when the validator is silent
  and the build fails with output that matches a corruption signature, the loop cleans
  the build state and reinstalls; if the reinstall throws, the loop is left by the
  throw; otherwise the loop goes on by \<^verbatim>\<open>continue\<close>, which runs \<^verbatim>\<open>attempt++\<close>: the compile
  is retried at the next attempt index. The Generator is not called on the way.
\<close>

theorem corrupt_retry_advances_attempt:
  fixes e :: env and s :: st
  defines "cleaned \<equiv> cleanGeneratedAppBuildState (snd (runCompileGate e s))"
  assumes below: "attempt < MAX_REPAIR_ATTEMPTS"
    and quiet: "truthy (findForbiddenNextDocumentUsage e (disk_of s)) = None"
    and failed: "\<not> ok (fst (runCompileGate e s))"
    and corrupt: "looksLikeCorruptInstall (build_output (fst (runCompileGate e s)))"
  shows "(runNpmInstallWithFallback e cleaned = (Inr (), s') \<longrightarrow>
            repair_loop e attempt s = repair_loop e (attempt + 1) s'
            \<and> generations (trace s') = generations (trace s))
       \<and> (runNpmInstallWithFallback e cleaned = (Inl x, s') \<longrightarrow>
            repair_loop e attempt s = (Throws x, s'))"
proof -
  have le: "attempt \<le> MAX_REPAIR_ATTEMPTS" using below by simp
  have g: "generations (trace s') = generations (trace s)"
    if "runNpmInstallWithFallback e cleaned = (r, s')" for r
    using generations_install [of e cleaned] that
    by (simp add: cleaned_def generations_compile)
  have a: "attempt_body e attempt s = (Increment, s')"
    if "runNpmInstallWithFallback e cleaned = (Inr (), s')"
    using that quiet failed corrupt
    by (simp add: attempt_body_def cleaned_def case_prod_beta)
  have b: "attempt_body e attempt s = (Leave (Throws x), s')"
    if "runNpmInstallWithFallback e cleaned = (Inl x, s')"
    using that quiet failed corrupt
    by (simp add: attempt_body_def cleaned_def case_prod_beta)
  show ?thesis
    using a b g le by (auto simp: repair_loop_leave repair_loop_increment)
qed

text \<open>At attempt 0 of a request whose first install was cut short: the state is the
  one in which the handler enters the loop.\<close>

theorem corrupt_retry_advances_attempt_witness:
  "repair_loop healing_env 0
     \<lparr>disk_of = Some (hashmark # (''node_modules'', Dir) # locked),
      trace = [Spawned [''install''], HashWritten ''1083067397'']\<rparr> =
   repair_loop healing_env 1
     \<lparr>disk_of = Some (hashmark # helper # locked),
      trace = [Spawned [''install''], HashWritten ''1083067397'', Spawned [''run'', ''build''],
         Removed ''.next'', Removed ''node_modules'', Removed ''package-lock.json'',
         Removed ''.install.hash'', Spawned [''install''], HashWritten ''1083067397'']\<rparr>"
proof -
  let ?s = "\<lparr>disk_of = Some (hashmark # (''node_modules'', Dir) # locked),
      trace = [Spawned [''install''], HashWritten ''1083067397'']\<rparr>"
  have b: "\<not> existsSync ''node_modules/@swc/helpers/package.json''
      (Some (hashmark # (''node_modules'', Dir) # locked))"
    by (simp add: hashmark_def locked_def dirs)
  show ?thesis
    using corrupt_retry_advances_attempt [where e = healing_env and s = ?s and attempt = 0
        and s' = "\<lparr>disk_of = Some (hashmark # helper # locked),
      trace = [Spawned [''install''], HashWritten ''1083067397'', Spawned [''run'', ''build''],
         Removed ''.next'', Removed ''node_modules'', Removed ''package-lock.json'',
         Removed ''.install.hash'', Spawned [''install''], HashWritten ''1083067397'']\<rparr>"]
    by (simp add: healing_fields build_without_helper [OF b] corrupt_swc clean_to_locked
          install_later MAX_REPAIR_ATTEMPTS_def)
qed

text \<open>C6 as stated fails. A request on a fresh directory: the first install is cut
  short, so the first build misses the helper package; the reinstall heals that, and
  the next two builds fail on a type error. The only call of the Generator is labelled
  attempt 2 of 2, and the request ends in the terminal failure after this one repair.\<close>

theorem budget_consumed_counterexample:
  "fst (POST healing_env fresh_disk) = resp_compile_failed ''Type error: missing prop''
   \<and> trace (snd (POST healing_env fresh_disk)) =
     [Spawned [''install''], HashWritten ''1083067397'',
      Spawned [''run'', ''build''],
      Removed ''.next'', Removed ''node_modules'', Removed ''package-lock.json'',
      Removed ''.install.hash'',
      Spawned [''install''], HashWritten ''1083067397'',
      Spawned [''run'', ''build''],
      Generated ''build a todo app''
        (''next build failed (attempt 2/2). Here is the full output:'' @ nl @ nl
         @ ''Type error: missing prop''),
      AppDirRemoved, AppDirCreated, FileWritten ''package.json'',
      Spawned [''install''], HashWritten ''1083067397'',
      Spawned [''run'', ''build''],
      Removed ''.build.lock'']"
proof -
  have o: "open_wx lockPath (holder healing_env) fresh_disk = Inr (Some locked)"
    by (simp add: open_wx_def fresh_disk_def lockPath_def healing_fields locked_def dirs)
  have l2: "repair_loop healing_env (Suc (Suc 0))
      \<lparr>disk_of = Some [hashmark, helper, (''package.json'', File ''{}'')], trace = tr\<rparr> =
      (Returns (resp_compile_failed ''Type error: missing prop''),
       \<lparr>disk_of = Some [hashmark, helper, (''package.json'', File ''{}'')],
        trace = tr @ [Spawned [''run'', ''build'']]\<rparr>)" for tr
    by (subst repair_loop.simps) (simp add: MAX_REPAIR_ATTEMPTS_def healing_attempt_2)
  have l1: "repair_loop healing_env (Suc 0)
      \<lparr>disk_of = Some (hashmark # helper # locked), trace = tr\<rparr> =
      (Returns (resp_compile_failed ''Type error: missing prop''),
       \<lparr>disk_of = Some [hashmark, helper, (''package.json'', File ''{}'')],
        trace = tr @ [Spawned [''run'', ''build''],
          Generated ''build a todo app''
            (''next build failed (attempt 2/2). Here is the full output:'' @ nl @ nl
             @ ''Type error: missing prop''),
          AppDirRemoved, AppDirCreated, FileWritten ''package.json'',
          Spawned [''install''], HashWritten ''1083067397'',
          Spawned [''run'', ''build'']]\<rparr>)" for tr
    by (subst repair_loop.simps) (simp add: MAX_REPAIR_ATTEMPTS_def healing_attempt_1 l2)
  have l0: "repair_loop healing_env 0
      \<lparr>disk_of = Some (hashmark # (''node_modules'', Dir) # locked), trace = tr\<rparr> =
      (Returns (resp_compile_failed ''Type error: missing prop''),
       \<lparr>disk_of = Some [hashmark, helper, (''package.json'', File ''{}'')],
        trace = tr @ [Spawned [''run'', ''build''],
          Removed ''.next'', Removed ''node_modules'', Removed ''package-lock.json'',
          Removed ''.install.hash'', Spawned [''install''], HashWritten ''1083067397'',
          Spawned [''run'', ''build''],
          Generated ''build a todo app''
            (''next build failed (attempt 2/2). Here is the full output:'' @ nl @ nl
             @ ''Type error: missing prop''),
          AppDirRemoved, AppDirCreated, FileWritten ''package.json'',
          Spawned [''install''], HashWritten ''1083067397'',
          Spawned [''run'', ''build'']]\<rparr>)" for tr
    by (subst repair_loop.simps) (simp add: MAX_REPAIR_ATTEMPTS_def healing_attempt_0 l1)
  have p: "pipeline healing_env \<lparr>disk_of = Some locked, trace = []\<rparr> =
      (Inr (resp_compile_failed ''Type error: missing prop''),
       \<lparr>disk_of = Some [hashmark, helper, (''package.json'', File ''{}'')],
        trace = [Spawned [''install''], HashWritten ''1083067397'',
      Spawned [''run'', ''build''],
      Removed ''.next'', Removed ''node_modules'', Removed ''package-lock.json'',
      Removed ''.install.hash'',
      Spawned [''install''], HashWritten ''1083067397'',
      Spawned [''run'', ''build''],
      Generated ''build a todo app''
        (''next build failed (attempt 2/2). Here is the full output:'' @ nl @ nl
         @ ''Type error: missing prop''),
      AppDirRemoved, AppDirCreated, FileWritten ''package.json'',
      Spawned [''install''], HashWritten ''1083067397'',
      Spawned [''run'', ''build'']]\<rparr>)"
    by (simp add: pipeline_def install_first l0)
  show ?thesis
    by (simp add: POST_def POST_try_def o p rm_step_def) (simp add: lockPath_def)
qed

subsection \<open>C3: the repair bound and the last attempt\<close>

text \<open>
  C3. The property: the repair loop calls the Generator at most twice, and a failure
  at the last attempt index ends in a terminal failure response, never in a launch. The
  first half holds: see \<open>repair_loop_generator_bound\<close>. The second half fails on the
  code: when the build at the last attempt index fails
  with output that matches a corruption signature, the loop cleans, reinstalls and runs
  \<^verbatim>\<open>continue\<close>; \<^verbatim>\<open>attempt\<close> becomes 3, the loop ends, and the handler goes on to launch
  the dev server. Here every build fails on a module that cannot be found, no build ever
  succeeds, and the response is the success response.
\<close>

theorem launch_without_passing_gate:
  "fst (POST (fixed_env missing_module_build) fresh_disk) = resp_success
  \<and> trace (snd (POST (fixed_env missing_module_build) fresh_disk)) =
     [Spawned [''install''], HashWritten ''1083067397'',
      Spawned [''run'', ''build''],
      Removed ''.next'', Removed ''node_modules'', Removed ''package-lock.json'',
      Removed ''.install.hash'',
      Spawned [''install''], HashWritten ''1083067397'',
      Spawned [''run'', ''build''],
      Removed ''.next'', Removed ''node_modules'', Removed ''package-lock.json'',
      Removed ''.install.hash'',
      Spawned [''install''], HashWritten ''1083067397'',
      Spawned [''run'', ''build''],
      Removed ''.next'', Removed ''node_modules'', Removed ''package-lock.json'',
      Removed ''.install.hash'',
      Spawned [''install''], HashWritten ''1083067397'',
      PortReclaimed 3000, DevServerLaunched, Slept 1000, Probed,
      Removed ''.build.lock'']"
proof -
  let ?e = "fixed_env missing_module_build"
  have o: "open_wx lockPath (holder ?e) fresh_disk = Inr (Some locked)"
    by (simp add: open_wx_def fresh_disk_def lockPath_def fixed_env_def locked_def dirs)
  have l3: "repair_loop ?e (Suc (Suc (Suc 0))) s = (ConditionFalse, s)" for s
    by (subst repair_loop.simps) (simp add: MAX_REPAIR_ATTEMPTS_def)
  have l2: "repair_loop ?e (Suc (Suc 0)) \<lparr>disk_of = Some (hashmark # locked), trace = tr\<rparr> =
      (ConditionFalse, snd (attempt_body ?e (Suc (Suc 0))
         \<lparr>disk_of = Some (hashmark # locked), trace = tr\<rparr>))" for tr
    by (subst repair_loop.simps) (simp add: MAX_REPAIR_ATTEMPTS_def missing_module_attempt l3)
  have l1: "repair_loop ?e (Suc 0) \<lparr>disk_of = Some (hashmark # locked), trace = tr\<rparr> =
      (ConditionFalse, snd (attempt_body ?e (Suc (Suc 0)) (snd (attempt_body ?e (Suc 0)
         \<lparr>disk_of = Some (hashmark # locked), trace = tr\<rparr>))))" for tr
    by (subst repair_loop.simps) (simp add: MAX_REPAIR_ATTEMPTS_def missing_module_attempt l2)
  have l0: "repair_loop ?e 0 \<lparr>disk_of = Some (hashmark # locked), trace = tr\<rparr> =
      (ConditionFalse, snd (attempt_body ?e (Suc (Suc 0)) (snd (attempt_body ?e (Suc 0)
         (snd (attempt_body ?e 0 \<lparr>disk_of = Some (hashmark # locked), trace = tr\<rparr>))))))" for tr
    by (subst repair_loop.simps) (simp add: MAX_REPAIR_ATTEMPTS_def missing_module_attempt l1)
  have ticks: "ticks ?e = (\<lambda>i. \<lparr>out_chunks = [], err_chunks = [], probed = Responded (Some 200)\<rparr>)"
    by (simp add: fixed_env_def)
  have "POST_try ?e fresh_disk = (resp_success,
      \<lparr>disk_of = Some (hashmark # locked),
       trace = [Spawned [''install''], HashWritten ''1083067397'',
      Spawned [''run'', ''build''],
      Removed ''.next'', Removed ''node_modules'', Removed ''package-lock.json'',
      Removed ''.install.hash'',
      Spawned [''install''], HashWritten ''1083067397'',
      Spawned [''run'', ''build''],
      Removed ''.next'', Removed ''node_modules'', Removed ''package-lock.json'',
      Removed ''.install.hash'',
      Spawned [''install''], HashWritten ''1083067397'',
      Spawned [''run'', ''build''],
      Removed ''.next'', Removed ''node_modules'', Removed ''package-lock.json'',
      Removed ''.install.hash'',
      Spawned [''install''], HashWritten ''1083067397'',
      PortReclaimed 3000, DevServerLaunched, Slept 1000, Probed]\<rparr>)"
    by (simp add: POST_try_def o pipeline_def missing_module_install l0 missing_module_attempt
          launch_and_probe_def ticks ready_at_once health_response_def)
  then show ?thesis
    by (simp add: POST_def rm_step_def) (simp add: lockPath_def)
qed

subsection \<open>C7: the classification of the readiness loop\<close>

text \<open>
  C7, as the code has it. The loop result \<open>r\<close> is that of the loop started after launch.
  \<^item> The loop makes at most 30 polls, each one a wait of 1000 ms followed by a probe.
  \<^item> A probe that resolves to a status in \<open>[200, 500)\<close> ends the loop at once with
    \<^verbatim>\<open>serverReady\<close> set, and the response is the success response.
  \<^item> Five probes in a row that resolve to 500, with no ready probe before them, give the
    response for a server that returns 500s, which is not the timeout response.
  \<^item> A probe that does not resolve to 500 (another status, a connection error, a request
    timeout) sets the counter to zero; one that does adds one to it.
  \<^item> When no probe of the 30 is ready and no five in a row resolve to 500, the response
    is the timeout response if no chunk of the dev server's output carried a ready
    marker, and the success response if one did.
\<close>

theorem health_classification:
  fixes tk :: "nat \<Rightarrow> tick" and tr :: "event list"
  defines "r \<equiv> health_loop tk 0 (initial_hstate tr)"
  shows "(\<exists>n\<le>30. htrace (snd r) = tr @ concat (replicate n [Slept 1000, Probed]))
    \<and> (i < 30 \<and> answers_ready (tk i) \<longrightarrow>
         fst (health_loop tk i h) = LoopLeft \<and> serverReady (snd (health_loop tk i h))
         \<and> htrace (snd (health_loop tk i h)) = htrace h @ [Slept 1000, Probed]
         \<and> health_response (health_loop tk i h) = resp_success)
    \<and> (k + 5 \<le> 30 \<and> (\<forall>j<k. \<not> answers_ready (tk j))
         \<and> (\<forall>j. k \<le> j \<and> j < k + 5 \<longrightarrow> answers500 (tk j)) \<longrightarrow>
         health_response r = resp_runtime_failure (stdOutput (snd r)) (errorOutput (snd r)))
    \<and> (\<not> answers500 t \<longrightarrow> consecutive500Errors (snd (poll t h)) = 0)
    \<and> (answers500 t \<longrightarrow> consecutive500Errors (snd (poll t h)) = consecutive500Errors h + 1)
    \<and> ((\<forall>j<30. \<not> answers_ready (tk j))
         \<and> (\<forall>k. k + 5 \<le> 30 \<longrightarrow> (\<exists>j. k \<le> j \<and> j < k + 5 \<and> \<not> answers500 (tk j))) \<longrightarrow>
         health_response r =
           (if \<exists>j<30. marker_seen (tk j) then resp_success
            else resp_timeout (stdOutput (snd r)) (errorOutput (snd r))))"
proof -
  have a: "\<exists>n\<le>30. htrace (snd r) = tr @ concat (replicate n [Slept 1000, Probed])"
    using health_loop_polls [of 0 tk "initial_hstate tr"]
    by (simp add: r_def initial_hstate_def)
  have b: "fst (health_loop tk i h) = LoopLeft \<and> serverReady (snd (health_loop tk i h))
         \<and> htrace (snd (health_loop tk i h)) = htrace h @ [Slept 1000, Probed]
         \<and> health_response (health_loop tk i h) = resp_success"
    if "i < 30" "answers_ready (tk i)"
  proof -
    have "health_loop tk i h = (LoopLeft, snd (poll (tk i) h))"
      using that by (simp add: health_loop_unfold poll_ready)
    then show ?thesis
      using that by (simp add: poll_ready poll_htrace health_response_def)
  qed
  have c: "health_response r = resp_runtime_failure (stdOutput (snd r)) (errorOutput (snd r))"
    if "k + 5 \<le> 30" "\<forall>j<k. \<not> answers_ready (tk j)"
      "\<forall>j. k \<le> j \<and> j < k + 5 \<longrightarrow> answers500 (tk j)"
  proof -
    have "fst r = Returned500"
      unfolding r_def using that by (intro five_500_yield_failure [where k = k]) simp_all
    then show ?thesis by (cases r) (simp add: health_response_def)
  qed
  have e: "health_response r =
           (if \<exists>j<30. marker_seen (tk j) then resp_success
            else resp_timeout (stdOutput (snd r)) (errorOutput (snd r)))"
    if "\<forall>j<30. \<not> answers_ready (tk j)"
      "\<forall>k. k + 5 \<le> 30 \<longrightarrow> (\<exists>j. k \<le> j \<and> j < k + 5 \<and> \<not> answers500 (tk j))"
  proof -
    have "fst r = LoopLeft \<and> serverReady (snd r)
        = (serverReady (initial_hstate tr) \<or> (\<exists>j. 0 \<le> j \<and> j < 30 \<and> marker_seen (tk j)))"
      unfolding r_def using that
      by (intro exhausted) (simp_all add: initial_hstate_def)
    then show ?thesis
      by (cases r) (auto simp: health_response_def initial_hstate_def)
  qed
  from a b c e show ?thesis
    by (simp add: poll_reset poll_500)
qed

text \<open>A server that answers 500 every time; a server that is silent and unreachable.\<close>

theorem health_classification_witness:
  "status (health_response (health_loop always500 0 (initial_hstate []))) = 500
   \<and> error_text (health_response (health_loop always500 0 (initial_hstate [])))
       = ''Server started but is returning 500 errors. Likely a compilation/build error in the generated app.''
   \<and> error_text (health_response (health_loop unreachable 0 (initial_hstate [])))
       = ''Dev server failed to start within 30 seconds''
   \<and> consecutive500Errors (snd (poll (unreachable 7) ((initial_hstate [])\<lparr>consecutive500Errors := 4\<rparr>))) = 0"
proof -
  have a: "answers500 (always500 j)" "\<not> answers_ready (always500 j)" for j
    by (simp_all add: answers500_def answers_ready_def always500_def serverStatus_def)
  have u: "\<not> answers500 (unreachable j)" "\<not> answers_ready (unreachable j)"
    "\<not> marker_seen (unreachable j)" for j
    by (simp_all add: answers500_def answers_ready_def unreachable_def serverStatus_def
          marker_seen_def)
  have w: "\<forall>k. k + 5 \<le> 30 \<longrightarrow> (\<exists>j. k \<le> j \<and> j < k + 5 \<and> \<not> answers500 (unreachable j))"
    using u(1) by (auto intro: exI [of _ "k"] simp: le_refl) 
  show ?thesis
    using health_classification [of always500 "[]" 0 "initial_hstate []" 0 "unreachable 7"]
      health_classification [of unreachable "[]" 0 "(initial_hstate [])\<lparr>consecutive500Errors := 4\<rparr>" 0
          "unreachable 7"] a u w
    by (simp add: resp_runtime_failure_def resp_timeout_def failure_def)
qed

text \<open>C7 as stated fails in its last part: the dev server prints its banner and never
  accepts a connection; all 30 probes fail, none is ready, none is a 500, and the
  response is the success response, not the timeout.\<close>

theorem timeout_with_banner_counterexample:
  "health_response (health_loop banner_only 0 (initial_hstate [])) = resp_success
   \<and> fst (serverStatus (probed (banner_only 0))) = False
   \<and> snd (serverStatus (probed (banner_only 0))) = None"
proof -
  have "fst (health_loop banner_only 0 (initial_hstate [])) = LoopLeft
      \<and> serverReady (snd (health_loop banner_only 0 (initial_hstate [])))
        = (serverReady (initial_hstate []) \<or> (\<exists>j. 0 \<le> j \<and> j < 30 \<and> marker_seen (banner_only j)))"
    by (intro exhausted) (auto simp: not_ready_banner initial_hstate_def)
  moreover have "\<exists>j. 0 \<le> j \<and> j < 30 \<and> marker_seen (banner_only j)"
    using marker_banner by (intro exI [of _ 0]) simp
  ultimately show ?thesis
    by (cases "health_loop banner_only 0 (initial_hstate [])")
       (simp add: health_response_def banner_only_def serverStatus_def)
qed

end
